theory Spec2Isabelle
  imports Main "HOL-Library.Sublist"
begin

section \<open>Exceptions, observable events and results\<close>

text \<open>
  The exceptions that \<^verbatim>\<open>fusesoc/main.py\<close> raises, catches or lets through.  Each
  constructor stands for every instance of the Python class (subclasses included) and
  carries what the code reads from it: \<^verbatim>\<open>str(e)\<close> for \<^verbatim>\<open>RuntimeError\<close> and
  \<^verbatim>\<open>IOError\<close>, \<^verbatim>\<open>e.value\<close> and \<^verbatim>\<open>e.msg\<close> for \<^verbatim>\<open>DependencyError\<close>, \<^verbatim>\<open>e.msg\<close> for
  \<^verbatim>\<open>SyntaxError\<close>, the variable name for \<^verbatim>\<open>UnboundLocalError\<close> and \<^verbatim>\<open>NameError\<close>, the
  exit status for \<^verbatim>\<open>SystemExit\<close> (raised by \<^verbatim>\<open>exit(1)\<close>).  \<^verbatim>\<open>DependencyError\<close> is
  imported from \<^verbatim>\<open>fusesoc.coremanager\<close>; it is a class of its own, not a
  \<^verbatim>\<open>RuntimeError\<close>, as the separate handlers of \<^verbatim>\<open>_get_core\<close> require.
\<close>

datatype pyexn =
    RuntimeError string
  | IOError string
  | DependencyError string string
  | SyntaxError string
  | ImportError
  | UnboundLocalError string
  | NameError string
  | TypeError string
  | SystemExit nat
  | OtherError string

text \<open>A Python dictionary with string keys, in insertion order.\<close>

type_synonym flags = "(string \<times> string option) list"

fun dict_set :: "('k \<times> 'v) list \<Rightarrow> 'k \<Rightarrow> 'v \<Rightarrow> ('k \<times> 'v) list" where
  "dict_set [] k v = [(k, v)]"
| "dict_set ((k', v') # kvs) k v =
     (if k' = k then (k, v) # kvs else (k', v') # dict_set kvs k v)"

datatype handler =
    H_build | H_init | H_pgm | H_fetch | H_list_systems | H_list_cores
  | H_core_info | H_list_paths | H_run_flow | H_sim | H_update

text \<open>
  What a run does that can be observed from outside: log records, printed lines and
  the calls made on the collaborators (the core manager and the backend).
\<close>

datatype event =
    LogError string
  | LogWarning string
  | LogInfo string
  | LogDebug string
  | Print string
  | AddCoresRoot "string list option"
  | GetEdaApi flags "string option"
  | NewBackend string string
  | CmSetup flags bool "string option"
  | BackendConfigure "string list"
  | BackendBuild
  | BackendRun "string list"
  | Dispatch handler

text \<open>
  A computation yields the events it produced and either the exception that ended it
  (\<open>Inl\<close>) or its value (\<open>Inr\<close>).
\<close>

type_synonym 'a res = "event list \<times> (pyexn + 'a)"

definition ret :: "'a \<Rightarrow> 'a res" where
  "ret x = ([], Inr x)"

definition raise :: "pyexn \<Rightarrow> 'a res" where
  "raise e = ([], Inl e)"

definition emit :: "event \<Rightarrow> unit res" where
  "emit ev = ([ev], Inr ())"

definition lift :: "pyexn + 'a \<Rightarrow> 'a res" where
  "lift r = ([], r)"

definition bind :: "'a res \<Rightarrow> ('a \<Rightarrow> 'b res) \<Rightarrow> 'b res" where
  "bind m f =
     (case m of
        (t, Inl e) \<Rightarrow> (t, Inl e)
      | (t, Inr x) \<Rightarrow> (case f x of (t', r) \<Rightarrow> (t @ t', r)))"

definition seq :: "unit res \<Rightarrow> 'b res \<Rightarrow> 'b res" where
  "seq m n = bind m (\<lambda>_. n)"

text \<open>
  \<^verbatim>\<open>try: m except ...: h\<close>.  The handler table \<open>h\<close> answers \<open>None\<close> for an exception
  that no \<^verbatim>\<open>except\<close> clause matches, which then propagates; an exception raised by the
  handler itself propagates too.
\<close>

definition try_except :: "'a res \<Rightarrow> (pyexn \<Rightarrow> 'a res option) \<Rightarrow> 'a res" where
  "try_except m h =
     (case m of
        (t, Inr x) \<Rightarrow> (t, Inr x)
      | (t, Inl e) \<Rightarrow>
          (case h e of
             None \<Rightarrow> (t, Inl e)
           | Some k \<Rightarrow> (case k of (t', r) \<Rightarrow> (t @ t', r))))"

definition py_exit :: "nat \<Rightarrow> 'a res" where
  "py_exit n = raise (SystemExit n)"

definition logger_error :: "string \<Rightarrow> unit res" where
  "logger_error msg = emit (LogError msg)"

definition logger_warning :: "string \<Rightarrow> unit res" where
  "logger_warning msg = emit (LogWarning msg)"

definition logger_debug :: "string \<Rightarrow> unit res" where
  "logger_debug msg = emit (LogDebug msg)"

definition py_print :: "string \<Rightarrow> unit res" where
  "py_print s = emit (Print s)"

section \<open>The collaborators\<close>

text \<open>
  \<^verbatim>\<open>main.py\<close> drives objects defined elsewhere: the \<^verbatim>\<open>CoreManager\<close> singleton, the
  \<^verbatim>\<open>Config\<close> singleton, a core object, \<^verbatim>\<open>importlib\<close> and the backend class it loads.
  Their behaviour is a parameter.  Within one call of \<^verbatim>\<open>run_backend\<close> each of these
  operations is called at most once, so its outcome is given as a function of its
  arguments: \<open>Inl e\<close> (or \<open>Some e\<close> for an operation without a value) when it raises.
\<close>

record ('core, 'api, 'bk) collab =
  cm_get_core :: "string \<Rightarrow> pyexn + 'core"
  core_get_tool :: "'core \<Rightarrow> flags \<Rightarrow> pyexn + string option"
  core_sanitized_name :: "'core \<Rightarrow> string"
  config_build_root :: string
  cm_get_eda_api :: "'core \<Rightarrow> flags \<Rightarrow> string option \<Rightarrow> pyexn + 'api"
  import_backend :: "string \<Rightarrow> string \<Rightarrow> 'api \<Rightarrow> string \<Rightarrow> pyexn + 'bk"
  cm_setup :: "'core \<Rightarrow> flags \<Rightarrow> bool \<Rightarrow> string option \<Rightarrow> pyexn option"
  bk_configure :: "'bk \<Rightarrow> string list \<Rightarrow> pyexn option"
  bk_build :: "'bk \<Rightarrow> pyexn option"
  bk_run :: "'bk \<Rightarrow> string list \<Rightarrow> pyexn option"

definition lift_unit :: "pyexn option \<Rightarrow> unit res" where
  "lift_unit r = (case r of None \<Rightarrow> ret () | Some e \<Rightarrow> raise e)"

section \<open>\<^verbatim>\<open>_get_core\<close>\<close>

text \<open>
  \<^verbatim>\<open>
  def _get_core(name):
      core = None
      try:
          core = CoreManager().get_core(Vlnv(name))
      except RuntimeError as e:
          logger.error(str(e))
          exit(1)
      except DependencyError as e:
          logger.error("'" + name + "' or any of its dependencies requires '" + e.value + "', but this core was not found")
          exit(1)
      return core
  \<close>
  (The leading underscore of the Python name is not an Isabelle identifier.)
\<close>

definition dependency_message :: "string \<Rightarrow> string \<Rightarrow> string" where
  "dependency_message name v =
     [CHR 0x27] @ name @ [CHR 0x27] @ '' or any of its dependencies requires ''
       @ [CHR 0x27] @ v @ [CHR 0x27] @ '', but this core was not found''"

definition get_core_handlers :: "string \<Rightarrow> pyexn \<Rightarrow> 'a res option" where
  "get_core_handlers name e =
     (case e of
        RuntimeError s \<Rightarrow> Some (seq (logger_error s) (py_exit 1))
      | DependencyError v m \<Rightarrow>
          Some (seq (logger_error (dependency_message name v)) (py_exit 1))
      | _ \<Rightarrow> None)"

definition priv_get_core :: "('core, 'api, 'bk) collab \<Rightarrow> string \<Rightarrow> 'core res" where
  "priv_get_core env name =
     try_except (lift (cm_get_core env name)) (get_core_handlers name)"

section \<open>\<^verbatim>\<open>_import\<close> and the paths of \<^verbatim>\<open>run_backend\<close>\<close>

text \<open>
  \<^verbatim>\<open>str.capitalize\<close> on ASCII text: the first character in upper case, the others in
  lower case.
\<close>

definition lower_letters :: string where
  "lower_letters = ''abcdefghijklmnopqrstuvwxyz''"

definition upper_letters :: string where
  "upper_letters = ''ABCDEFGHIJKLMNOPQRSTUVWXYZ''"

definition upper_char :: "char \<Rightarrow> char" where
  "upper_char c =
     (case map_of (zip lower_letters upper_letters) c of None \<Rightarrow> c | Some u \<Rightarrow> u)"

definition lower_char :: "char \<Rightarrow> char" where
  "lower_char c =
     (case map_of (zip upper_letters lower_letters) c of None \<Rightarrow> c | Some l \<Rightarrow> l)"

fun capitalize :: "string \<Rightarrow> string" where
  "capitalize [] = []"
| "capitalize (c # cs) = upper_char c # map lower_char cs"

text \<open>
  \<^verbatim>\<open>
  def _import(name):
      module = importlib.import_module('fusesoc.edatools.{}'.format(name))
      return getattr(module, name.capitalize())
  \<close>
  The class it returns is called at once, \<^verbatim>\<open>_import(tool)(eda_api=eda_api,
  work_root=work_root)\<close>, so the import, the attribute lookup and the constructor are
  one collaborator, \<open>import_backend\<close>, given the module path and the class name.
\<close>

definition priv_import ::
  "('core, 'api, 'bk) collab \<Rightarrow> string \<Rightarrow> 'api \<Rightarrow> string \<Rightarrow> pyexn + 'bk" where
  "priv_import env name = import_backend env (''fusesoc.edatools.'' @ name) (capitalize name)"

text \<open>
  \<^verbatim>\<open>os.path.join\<close> (POSIX): an absolute component discards what precedes it; otherwise
  components are joined with one \<^verbatim>\<open>/\<close>.
\<close>

definition join_step :: "string \<Rightarrow> string \<Rightarrow> string" where
  "join_step path b =
     (if b \<noteq> [] \<and> hd b = CHR ''/'' then b
      else if path = [] \<or> last path = CHR ''/'' then path @ b
      else path @ ''/'' @ b)"

definition path_join :: "string \<Rightarrow> string list \<Rightarrow> string" where
  "path_join a p = foldl join_step a p"

section \<open>\<^verbatim>\<open>run_backend\<close>\<close>

definition tool_type_short :: "string \<Rightarrow> string" where
  "tool_type_short tool_type = (if tool_type = ''simulator'' then ''sim'' else ''bld'')"

definition tool_error :: "string \<Rightarrow> string \<Rightarrow> string" where
  "tool_error tool_type system =
     (if tool_type = ''simulator''
      then ''No simulator was supplied on command line or found in '' @ [CHR 0x27]
             @ system @ [CHR 0x27] @ '' core description''
      else ''Unable to find synthesis info for '' @ [CHR 0x27] @ system @ [CHR 0x27])"

definition build_error :: "string \<Rightarrow> string" where
  "build_error tool_type =
     (if tool_type = ''simulator'' then ''Failed to build simulation model''
      else ''Failed to build FPGA'')"

definition run_error :: "string \<Rightarrow> string" where
  "run_error tool_type =
     (if tool_type = ''simulator'' then ''Failed to run the simulation''
      else ''Failed to program the FPGA'')"

definition export_root_of ::
  "('core, 'api, 'bk) collab \<Rightarrow> 'core \<Rightarrow> bool \<Rightarrow> string option" where
  "export_root_of env core export =
     (if export
      then Some (path_join (config_build_root env) [core_sanitized_name env core, ''src''])
      else None)"

definition work_root_of ::
  "('core, 'api, 'bk) collab \<Rightarrow> 'core \<Rightarrow> string \<Rightarrow> string \<Rightarrow> string" where
  "work_root_of env core tool_type tool =
     path_join (config_build_root env)
       [core_sanitized_name env core, tool_type_short tool_type @ ''-'' @ tool]"

text \<open>
  \<^verbatim>\<open>
      try:
          eda_api = CoreManager().get_eda_api(core.name, flags, export_root)
      except DependencyError as e:
          logger.error(e.msg + "\nFailed to resolve dependencies for {}".format(system))
          exit(1)
      except SyntaxError as e:
          logger.error(e.msg)
          exit(1)
  \<close>
\<close>

definition eda_api_handlers :: "string \<Rightarrow> pyexn \<Rightarrow> 'a res option" where
  "eda_api_handlers system e =
     (case e of
        DependencyError v m \<Rightarrow>
          Some (seq (logger_error
                      (m @ [CHR 0x0A] @ ''Failed to resolve dependencies for '' @ system))
                    (py_exit 1))
      | SyntaxError m \<Rightarrow> Some (seq (logger_error m) (py_exit 1))
      | _ \<Rightarrow> None)"

definition get_eda_api_step ::
  "('core, 'api, 'bk) collab \<Rightarrow> 'core \<Rightarrow> flags \<Rightarrow> string option \<Rightarrow> string \<Rightarrow> 'api res" where
  "get_eda_api_step env core flags export_root system =
     try_except
       (seq (emit (GetEdaApi flags export_root))
            (lift (cm_get_eda_api env core flags export_root)))
       (eda_api_handlers system)"

text \<open>
  \<^verbatim>\<open>
      try:
          backend = _import(tool)(eda_api=eda_api, work_root=work_root)
      except ImportError:
          logger.error('Backend "{}" not found'.format(tool))
          exit(1)
      except RuntimeError as e:
          logger.error(str(e))
          exit(1)
  \<close>
\<close>

definition backend_handlers :: "string \<Rightarrow> pyexn \<Rightarrow> 'a res option" where
  "backend_handlers tool e =
     (case e of
        ImportError \<Rightarrow>
          Some (seq (logger_error (''Backend '' @ [CHR 0x22] @ tool @ [CHR 0x22] @ '' not found''))
                    (py_exit 1))
      | RuntimeError s \<Rightarrow> Some (seq (logger_error s) (py_exit 1))
      | _ \<Rightarrow> None)"

definition new_backend_step ::
  "('core, 'api, 'bk) collab \<Rightarrow> string \<Rightarrow> 'api \<Rightarrow> string \<Rightarrow> 'bk res" where
  "new_backend_step env tool eda_api work_root =
     try_except
       (seq (emit (NewBackend tool work_root))
            (lift (priv_import env tool eda_api work_root)))
       (backend_handlers tool)"

text \<open>
  \<^verbatim>\<open>
      if do_configure:
          try:
              CoreManager().setup(core.name, flags, export=export, export_root=export_root)
              backend.configure(backendargs)
              print('')
          except RuntimeError as e:
              logger.error("Failed to configure the system")
              logger.error(str(e))
              exit(1)
  \<close>
\<close>

definition configure_handlers :: "pyexn \<Rightarrow> unit res option" where
  "configure_handlers e =
     (case e of
        RuntimeError s \<Rightarrow>
          Some (seq (logger_error ''Failed to configure the system'')
               (seq (logger_error s) (py_exit 1)))
      | _ \<Rightarrow> None)"

definition configure_stage ::
  "('core, 'api, 'bk) collab \<Rightarrow> 'core \<Rightarrow> 'bk \<Rightarrow> flags \<Rightarrow> bool \<Rightarrow> string option
     \<Rightarrow> string list \<Rightarrow> unit res" where
  "configure_stage env core backend flags export export_root backendargs =
     try_except
       (seq (emit (CmSetup flags export export_root))
       (seq (lift_unit (cm_setup env core flags export export_root))
       (seq (emit (BackendConfigure backendargs))
       (seq (lift_unit (bk_configure env backend backendargs))
            (py_print [])))))
       configure_handlers"

text \<open>
  \<^verbatim>\<open>
      if do_build:
          try:
              backend.build()
          except RuntimeError as e:
              logger.error(build_error + " : " + str(e))
              exit(1)
  \<close>
\<close>

definition build_handlers :: "string \<Rightarrow> pyexn \<Rightarrow> unit res option" where
  "build_handlers tool_type e =
     (case e of
        RuntimeError s \<Rightarrow>
          Some (seq (logger_error (build_error tool_type @ '' : '' @ s)) (py_exit 1))
      | _ \<Rightarrow> None)"

definition build_stage :: "('core, 'api, 'bk) collab \<Rightarrow> 'bk \<Rightarrow> string \<Rightarrow> unit res" where
  "build_stage env backend tool_type =
     try_except
       (seq (emit BackendBuild) (lift_unit (bk_build env backend)))
       (build_handlers tool_type)"

text \<open>
  \<^verbatim>\<open>
      if do_run:
          try:
              backend.run(backendargs)
          except RuntimeError as e:
              logger.error(run_error + " : " + str(e))
              logger.error(str(e))
              exit(1)
  \<close>
\<close>

definition run_handlers :: "string \<Rightarrow> pyexn \<Rightarrow> unit res option" where
  "run_handlers tool_type e =
     (case e of
        RuntimeError s \<Rightarrow>
          Some (seq (logger_error (run_error tool_type @ '' : '' @ s))
               (seq (logger_error s) (py_exit 1)))
      | _ \<Rightarrow> None)"

definition run_stage ::
  "('core, 'api, 'bk) collab \<Rightarrow> 'bk \<Rightarrow> string \<Rightarrow> string list \<Rightarrow> unit res" where
  "run_stage env backend tool_type backendargs =
     try_except
       (seq (emit (BackendRun backendargs)) (lift_unit (bk_run env backend backendargs)))
       (run_handlers tool_type)"

definition when_do :: "bool \<Rightarrow> unit res \<Rightarrow> unit res" where
  "when_do b m = (if b then m else ret ())"

text \<open>The three guarded stages that end \<^verbatim>\<open>run_backend\<close>, in the order of the source.\<close>

definition stages ::
  "('core, 'api, 'bk) collab \<Rightarrow> 'core \<Rightarrow> 'bk \<Rightarrow> string \<Rightarrow> bool \<Rightarrow> string option
     \<Rightarrow> bool \<Rightarrow> bool \<Rightarrow> bool \<Rightarrow> flags \<Rightarrow> string list \<Rightarrow> unit res" where
  "stages env core backend tool_type export export_root do_configure do_build do_run
      flags backendargs =
     seq (when_do do_configure
            (configure_stage env core backend flags export export_root backendargs))
    (seq (when_do do_build (build_stage env backend tool_type))
         (when_do do_run (run_stage env backend tool_type backendargs)))"

text \<open>
  What follows the tool check: \<^verbatim>\<open>flags['tool'] = tool\<close>, the two roots, the EDA API,
  the backend object and the stages.
\<close>

definition with_tool ::
  "('core, 'api, 'bk) collab \<Rightarrow> 'core \<Rightarrow> string \<Rightarrow> string \<Rightarrow> bool \<Rightarrow> bool \<Rightarrow> bool \<Rightarrow> bool
     \<Rightarrow> flags \<Rightarrow> string \<Rightarrow> string list \<Rightarrow> unit res" where
  "with_tool env core tool tool_type export do_configure do_build do_run flags system
      backendargs =
     (let flags' = dict_set flags ''tool'' (Some tool);
          export_root = export_root_of env core export;
          work_root = work_root_of env core tool_type tool
      in bind (get_eda_api_step env core flags' export_root system) (\<lambda>eda_api.
         bind (new_backend_step env tool eda_api work_root) (\<lambda>backend.
         stages env core backend tool_type export export_root do_configure do_build do_run
           flags' backendargs)))"

text \<open>
  \<^verbatim>\<open>
  def run_backend(tool_type, export, do_configure, do_build, do_run, flags, system, backendargs):
      ...
      core = _get_core(system)
      tool = core.get_tool(flags)
      if not tool:
          logger.error(tool_error.format(system))
          exit(1)
      flags['tool'] = tool
      ...
  \<close>
  \<^verbatim>\<open>not tool\<close> holds of \<^verbatim>\<open>None\<close> and of the empty string.
\<close>

definition run_backend ::
  "('core, 'api, 'bk) collab \<Rightarrow> string \<Rightarrow> bool \<Rightarrow> bool \<Rightarrow> bool \<Rightarrow> bool \<Rightarrow> flags \<Rightarrow> string
     \<Rightarrow> string list \<Rightarrow> unit res" where
  "run_backend env tool_type export do_configure do_build do_run flags system backendargs =
     bind (priv_get_core env system) (\<lambda>core.
     bind (lift (core_get_tool env core flags)) (\<lambda>tool.
       (case tool of
          None \<Rightarrow> seq (logger_error (tool_error tool_type system)) (py_exit 1)
        | Some t \<Rightarrow>
            if t = [] then seq (logger_error (tool_error tool_type system)) (py_exit 1)
            else with_tool env core t tool_type export do_configure do_build do_run flags
                   system backendargs)))"

section \<open>The subcommand handlers that call \<^verbatim>\<open>run_backend\<close>\<close>

text \<open>
  The attributes of the \<^verbatim>\<open>argparse\<close> namespace that \<^verbatim>\<open>main.py\<close> reads.  \<open>arg_func\<close> is
  the handler set by \<^verbatim>\<open>set_defaults(func=...)\<close>; it is absent when no subcommand was
  given.  \<open>arg_cores_root\<close> is \<^verbatim>\<open>None\<close> unless \<^verbatim>\<open>--cores-root\<close> was given
  (\<^verbatim>\<open>action='append'\<close>).
\<close>

record args =
  arg_cores_root :: "string list option"
  arg_32 :: bool
  arg_64 :: bool
  arg_monochrome :: bool
  arg_verbose :: bool
  arg_func :: "handler option"
  arg_system :: string
  arg_backendargs :: "string list"
  arg_target :: "string option"
  arg_setup :: bool
  arg_no_export :: bool
  arg_build :: bool
  arg_launch :: bool
  arg_tool :: string
  arg_sim :: "string option"
  arg_keep :: bool
  arg_build_only :: bool
  arg_testbench :: "string option"

text \<open>
  Python binds the arguments of a call to the parameters of \<^verbatim>\<open>def run_backend(tool_type,
  export, do_configure, do_build, do_run, flags, system, backendargs)\<close> by position, and
  raises \<^verbatim>\<open>TypeError\<close> before the body runs when their number differs (no parameter has
  a default).  The values passed at the call sites of \<^verbatim>\<open>main.py\<close>:
\<close>

datatype pyval = PNone | PBool bool | PStr string | PList "string list" | PDict flags

definition run_backend_params :: "string list" where
  "run_backend_params =
     [''tool_type'', ''export'', ''do_configure'', ''do_build'', ''do_run'', ''flags'',
      ''system'', ''backendargs'']"

definition bind_params :: "string list \<Rightarrow> pyval list \<Rightarrow> (string \<times> pyval) list" where
  "bind_params params posargs = zip params posargs"

definition unbound_params :: "string list \<Rightarrow> pyval list \<Rightarrow> string list" where
  "unbound_params params posargs = drop (length posargs) params"

text \<open>
  \<open>TypeError\<close> carries the name of the function whose call failed.  Every call site
  that passes eight arguments passes a string, four booleans, a dictionary, a string
  and a list; eight values of other types are not produced by \<^verbatim>\<open>main.py\<close> and are
  reported as a \<open>TypeError\<close> as well.
\<close>

definition call_run_backend :: "('core, 'api, 'bk) collab \<Rightarrow> pyval list \<Rightarrow> unit res" where
  "call_run_backend env posargs =
     (if length posargs \<noteq> length run_backend_params then raise (TypeError ''run_backend'')
      else
        (case posargs of
           [PStr tool_type, PBool export, PBool do_configure, PBool do_build, PBool do_run,
            PDict flags, PStr system, PList backendargs] \<Rightarrow>
             run_backend env tool_type export do_configure do_build do_run flags system
               backendargs
         | _ \<Rightarrow> raise (TypeError ''run_backend'')))"

text \<open>
  \<^verbatim>\<open>
  def build(args):
      do_configure = True
      do_build = not args.setup
      do_run = False
      flags = {'flow' : 'synth',
               'tool' : None,
               'target' : args.target}
      run_backend('build',
                  not args.no_export,
                  do_configure, do_build, do_run,
                  flags, args.system, args.backendargs)
  \<close>
\<close>

definition build_call_args :: "args \<Rightarrow> pyval list" where
  "build_call_args a =
     (let do_configure = True;
          do_build = \<not> arg_setup a;
          do_run = False;
          flags = [(''flow'', Some ''synth''), (''tool'', None), (''target'', arg_target a)]
      in [PStr ''build'', PBool (\<not> arg_no_export a),
          PBool do_configure, PBool do_build, PBool do_run,
          PDict flags, PStr (arg_system a), PList (arg_backendargs a)])"

definition build :: "('core, 'api, 'bk) collab \<Rightarrow> args \<Rightarrow> unit res" where
  "build env a = call_run_backend env (build_call_args a)"

text \<open>
  \<^verbatim>\<open>
  def pgm(args):
      do_configure = False
      do_build = False
      do_run = True
      flags = {'flow' : 'synth',
               'tool' : None}
      run_backend('build',
                  do_configure, do_build, do_run,
                  flags, args.system, args.backendargs)
  \<close>
\<close>

definition pgm_call_args :: "args \<Rightarrow> pyval list" where
  "pgm_call_args a =
     (let do_configure = False;
          do_build = False;
          do_run = True;
          flags = [(''flow'', Some ''synth''), (''tool'', None)]
      in [PStr ''build'',
          PBool do_configure, PBool do_build, PBool do_run,
          PDict flags, PStr (arg_system a), PList (arg_backendargs a)])"

definition pgm :: "('core, 'api, 'bk) collab \<Rightarrow> args \<Rightarrow> unit res" where
  "pgm env a = call_run_backend env (pgm_call_args a)"

text \<open>
  \<^verbatim>\<open>
  def run_flow(args):
      stages = (args.setup, args.build, args.launch)
      #Run all stages by default if no stage flags are set
      if  stages == (False, False, False):
          do_configure = True
          do_build     = True
          do_run       = True
      else:
          do_configure = args.setup
          do_build     = args.build
          do_run       = args.launch

      if args.tool in ['ghdl', 'icarus', 'isim', 'modelsim', 'rivierapro', 'verilator', 'xsim']:
          tool_type = 'simulator'
      elif args.tool in ['icestorm', 'ise', 'quartus', 'vivado']:
          tool_type = 'build'

      flags = {'tool'   : args.tool,
               'target' : args.target}
      run_backend(tool_type,
                  not args.no_export,
                  do_configure, do_build, do_run,
                  flags, args.system, args.backendargs)
  \<close>
  The local \<^verbatim>\<open>tool_type\<close> is an optional value: neither branch assigns it for another
  tool, and reading it (the first argument of the call, evaluated first) raises
  \<^verbatim>\<open>UnboundLocalError\<close>.
\<close>

definition simulator_tools :: "string list" where
  "simulator_tools =
     [''ghdl'', ''icarus'', ''isim'', ''modelsim'', ''rivierapro'', ''verilator'', ''xsim'']"

definition build_tools :: "string list" where
  "build_tools = [''icestorm'', ''ise'', ''quartus'', ''vivado'']"

definition flow_tool_type :: "string \<Rightarrow> string option" where
  "flow_tool_type tool =
     (if tool \<in> set simulator_tools then Some ''simulator''
      else if tool \<in> set build_tools then Some ''build''
      else None)"

definition flow_stages :: "args \<Rightarrow> bool \<times> bool \<times> bool" where
  "flow_stages a =
     (let stages = (arg_setup a, arg_build a, arg_launch a)
      in if stages = (False, False, False) then (True, True, True)
         else (arg_setup a, arg_build a, arg_launch a))"

definition run_flow_call_args :: "string \<Rightarrow> args \<Rightarrow> pyval list" where
  "run_flow_call_args tool_type a =
     (case flow_stages a of
        (do_configure, do_build, do_run) \<Rightarrow>
          (let flags = [(''tool'', Some (arg_tool a)), (''target'', arg_target a)]
           in [PStr tool_type, PBool (\<not> arg_no_export a),
               PBool do_configure, PBool do_build, PBool do_run,
               PDict flags, PStr (arg_system a), PList (arg_backendargs a)]))"

definition run_flow :: "('core, 'api, 'bk) collab \<Rightarrow> args \<Rightarrow> unit res" where
  "run_flow env a =
     (case flow_tool_type (arg_tool a) of
        None \<Rightarrow> raise (UnboundLocalError ''tool_type'')
      | Some tool_type \<Rightarrow> call_run_backend env (run_flow_call_args tool_type a))"

text \<open>
  \<^verbatim>\<open>
  def sim(args):
      do_configure = not args.keep or not os.path.exists(backend.work_root)
      do_build = not args.setup
      do_run   = not (args.build_only or args.setup)
      if args.testbench:
          logger.warn("--testbench is deprecated. Use --target instead")
          if not args.target:
              args.target = args.testbench

      flags = {'flow' : 'sim',
               'tool' : args.sim,
               'target' : args.target}
      run_backend('simulator',
                  not args.no_export,
                  do_configure, do_build, do_run,
                  flags, args.system, args.backendargs)
  \<close>
  No name \<^verbatim>\<open>backend\<close> exists in \<^verbatim>\<open>sim\<close> or in the module: with \<^verbatim>\<open>--keep\<close> the second
  operand of \<^verbatim>\<open>or\<close> is evaluated and raises \<^verbatim>\<open>NameError\<close>.
\<close>

definition truthy_str :: "string option \<Rightarrow> bool" where
  "truthy_str s = (case s of None \<Rightarrow> False | Some t \<Rightarrow> t \<noteq> [])"

definition sim_target :: "args \<Rightarrow> string option" where
  "sim_target a =
     (if truthy_str (arg_testbench a) \<and> \<not> truthy_str (arg_target a) then arg_testbench a
      else arg_target a)"

definition sim_call_args :: "args \<Rightarrow> pyval list" where
  "sim_call_args a =
     (let do_configure = True;
          do_build = \<not> arg_setup a;
          do_run = \<not> (arg_build_only a \<or> arg_setup a);
          flags = [(''flow'', Some ''sim''), (''tool'', arg_sim a), (''target'', sim_target a)]
      in [PStr ''simulator'', PBool (\<not> arg_no_export a),
          PBool do_configure, PBool do_build, PBool do_run,
          PDict flags, PStr (arg_system a), PList (arg_backendargs a)])"

definition sim :: "('core, 'api, 'bk) collab \<Rightarrow> args \<Rightarrow> unit res" where
  "sim env a =
     (if arg_keep a then raise (NameError ''backend'')
      else
        seq (if truthy_str (arg_testbench a)
             then logger_warning ''--testbench is deprecated. Use --target instead''
             else ret ())
            (call_run_backend env (sim_call_args a)))"

section \<open>\<^verbatim>\<open>run\<close>: registering the core roots and dispatching\<close>

text \<open>
  \<^verbatim>\<open>str.split(':')\<close>: every separator cuts, empty pieces are kept, and the result is
  never empty.
\<close>

fun split_on :: "char \<Rightarrow> string \<Rightarrow> string list" where
  "split_on sep [] = [[]]"
| "split_on sep (c # cs) =
     (if c = sep then [] # split_on sep cs
      else (case split_on sep cs of
              [] \<Rightarrow> [[c]]
            | w # ws \<Rightarrow> (c # w) # ws))"

text \<open>
  \<^verbatim>\<open>
      env_cores_root = []
      if os.getenv("FUSESOC_CORES"):
          env_cores_root = os.getenv("FUSESOC_CORES").split(":")
      env_cores_root.reverse()
  \<close>
  The variable is unset (\<open>None\<close>) or a string; unset and empty are both false.
\<close>

definition env_cores_root :: "string option \<Rightarrow> string list" where
  "env_cores_root fusesoc_cores =
     rev (if truthy_str fusesoc_cores
          then (case fusesoc_cores of None \<Rightarrow> [] | Some s \<Rightarrow> split_on CHR '':'' s)
          else [])"

text \<open>
  The four groups, in the order of the list that the \<^verbatim>\<open>for\<close> loop of \<^verbatim>\<open>run\<close> walks:
  \<^verbatim>\<open>[config.cores_root, config.systems_root, env_cores_root, args.cores_root]\<close>.
  A group that is not configured or not given is \<^verbatim>\<open>None\<close>.
\<close>

definition root_groups ::
  "string list option \<Rightarrow> string list option \<Rightarrow> string option \<Rightarrow> string list option
     \<Rightarrow> string list option list" where
  "root_groups config_cores_root config_systems_root fusesoc_cores args_cores_root =
     [config_cores_root, config_systems_root, Some (env_cores_root fusesoc_cores),
      args_cores_root]"

text \<open>\<^verbatim>\<open>except (RuntimeError, IOError) as e\<close> and \<^verbatim>\<open>str(e)\<close> for these two classes.\<close>

definition caught_by_run :: "pyexn \<Rightarrow> bool" where
  "caught_by_run e = (case e of RuntimeError s \<Rightarrow> True | IOError s \<Rightarrow> True | _ \<Rightarrow> False)"

definition exn_str :: "pyexn \<Rightarrow> string" where
  "exn_str e = (case e of RuntimeError s \<Rightarrow> s | IOError s \<Rightarrow> s | _ \<Rightarrow> [])"

definition register_warning :: "pyexn \<Rightarrow> string" where
  "register_warning e =
     ''Failed to register cores root '' @ [CHR 0x27] @ exn_str e @ [CHR 0x27]"

text \<open>
  \<^verbatim>\<open>
      for cores_root in [config.cores_root,
                         config.systems_root,
                         env_cores_root,
                         args.cores_root]:
          try:
              cm.add_cores_root(cores_root)
          except (RuntimeError, IOError) as e:
              logger.warning("Failed to register cores root '{}'".format(str(e)))
  \<close>
  \<^verbatim>\<open>add_cores_root\<close> belongs to the core manager and changes it; it is a parameter that
  answers the new state of the manager and the exception it raised, if any (a call
  that raises may have changed the manager before).  The loop answers the last state,
  its events and the exception that ended it, if one went uncaught.
\<close>

fun register_roots ::
  "('cm \<Rightarrow> string list option \<Rightarrow> 'cm \<times> pyexn option) \<Rightarrow> 'cm \<Rightarrow> string list option list
     \<Rightarrow> 'cm \<times> event list \<times> pyexn option" where
  "register_roots add cm [] = (cm, [], None)"
| "register_roots add cm (g # gs) =
     (case add cm g of
        (cm', None) \<Rightarrow>
          (case register_roots add cm' gs of
             (cm'', t, x) \<Rightarrow> (cm'', AddCoresRoot g # t, x))
      | (cm', Some e) \<Rightarrow>
          if caught_by_run e
          then (case register_roots add cm' gs of
                  (cm'', t, x) \<Rightarrow>
                    (cm'', AddCoresRoot g # LogWarning (register_warning e) # t, x))
          else (cm', [AddCoresRoot g], Some e))"

text \<open>
  What \<^verbatim>\<open>run\<close> and \<^verbatim>\<open>main\<close> take from outside: the logging setup, the process
  environment and command line, the configuration file, the platform, the core
  manager's registration, the collaborators of the handlers as they stand once the
  roots are registered and the word size is set, \<^verbatim>\<open>argparse\<close>'s parsing, and the
  handlers that do not call \<^verbatim>\<open>run_backend\<close> (\<^verbatim>\<open>init\<close>, \<^verbatim>\<open>fetch\<close>, \<^verbatim>\<open>list-systems\<close>,
  \<^verbatim>\<open>list-cores\<close>, \<^verbatim>\<open>core-info\<close>, \<^verbatim>\<open>list-paths\<close>, \<^verbatim>\<open>update\<close>).
\<close>

datatype arg_action = Store | StoreTrue | Append | Version | Remainder

datatype pobj =
    Parser "(string \<times> arg_action) list" "handler option"
  | SubParsers "(string \<times> nat) list"

record ('cm, 'core, 'api, 'bk) world =
  w_setup_logging :: "bool \<Rightarrow> bool \<Rightarrow> pyexn option"
  w_argv_str :: string
  w_list_str :: "string list \<Rightarrow> string"
  w_fusesoc_cores :: "string option"
  w_config_cores_root :: "string list option"
  w_config_systems_root :: "string list option"
  w_add_cores_root :: "'cm \<Rightarrow> string list option \<Rightarrow> 'cm \<times> pyexn option"
  w_platform_64bit :: bool
  w_collab :: "'cm \<Rightarrow> nat \<Rightarrow> ('core, 'api, 'bk) collab"
  w_other_handler :: "handler \<Rightarrow> 'cm \<Rightarrow> nat \<Rightarrow> args \<Rightarrow> unit res"
  w_parse_args :: "(nat \<Rightarrow> pobj option) \<Rightarrow> nat \<Rightarrow> string list \<Rightarrow> pyexn + args"

text \<open>The debug records that open \<^verbatim>\<open>run\<close> (lines 303 to 314).\<close>

definition run_prologue :: "('cm, 'core, 'api, 'bk) world \<Rightarrow> args \<Rightarrow> event list" where
  "run_prologue w a =
     [LogDebug (''Command line arguments: '' @ w_argv_str w)]
     @ (if truthy_str (w_fusesoc_cores w)
        then [LogDebug (''FUSESOC_CORES: ''
                @ w_list_str w (case w_fusesoc_cores w of
                                  None \<Rightarrow> [] | Some s \<Rightarrow> split_on CHR '':'' s))]
        else [])
     @ [LogDebug (if arg_verbose a then ''Verbose output'' else ''Concise output'')]
     @ [LogDebug (if arg_monochrome a then ''Monochrome output'' else ''Colorful output'')]"

text \<open>
  \<^verbatim>\<open>
      if vars(args)['32']:
          config.archbits = 32
          logger.debug("Forcing 32-bit mode")
      elif vars(args)['64']:
          config.archbits = 64
          logger.debug("Forcing 64-bit mode")
      else:
          config.archbits = 64 if platform.architecture()[0] == '64bit' else 32
          logger.debug("Autodetected " + str(config.archbits) + "-bit mode")
  \<close>
\<close>

definition global_options :: "('cm, 'core, 'api, 'bk) world \<Rightarrow> args \<Rightarrow> nat \<times> event list" where
  "global_options w a =
     (if arg_32 a then (32, [LogDebug ''Forcing 32-bit mode''])
      else if arg_64 a then (64, [LogDebug ''Forcing 64-bit mode''])
      else if w_platform_64bit w then (64, [LogDebug ''Autodetected 64-bit mode''])
      else (32, [LogDebug ''Autodetected 32-bit mode'']))"

text \<open>\<^verbatim>\<open>args.func(args)\<close>.\<close>

definition dispatch ::
  "('cm, 'core, 'api, 'bk) world \<Rightarrow> 'cm \<Rightarrow> nat \<Rightarrow> handler \<Rightarrow> args \<Rightarrow> unit res" where
  "dispatch w cm archbits h a =
     seq (emit (Dispatch h))
       (case h of
          H_build \<Rightarrow> build (w_collab w cm archbits) a
        | H_pgm \<Rightarrow> pgm (w_collab w cm archbits) a
        | H_run_flow \<Rightarrow> run_flow (w_collab w cm archbits) a
        | H_sim \<Rightarrow> sim (w_collab w cm archbits) a
        | _ \<Rightarrow> w_other_handler w h cm archbits a)"

text \<open>
  \<^verbatim>\<open>run(args)\<close>, from the state \<open>cm\<close> of the core manager: the manager's last state and
  the events and outcome of the run.  \<^verbatim>\<open>main\<close> calls it only with a handler set.
\<close>

definition run ::
  "('cm, 'core, 'api, 'bk) world \<Rightarrow> 'cm \<Rightarrow> args \<Rightarrow> 'cm \<times> unit res" where
  "run w cm a =
     (case w_setup_logging w (arg_verbose a) (arg_monochrome a) of
        Some e \<Rightarrow> (cm, ([], Inl e))
      | None \<Rightarrow>
          (case register_roots (w_add_cores_root w) cm
                  (root_groups (w_config_cores_root w) (w_config_systems_root w)
                     (w_fusesoc_cores w) (arg_cores_root a)) of
             (cm', t, Some e) \<Rightarrow> (cm', (run_prologue w a @ t, Inl e))
           | (cm', t, None) \<Rightarrow>
               (case global_options w a of
                  (archbits, t') \<Rightarrow>
                    (cm', bind (run_prologue w a @ t @ t', Inr ())
                            (\<lambda>_. case arg_func a of
                                   None \<Rightarrow> raise (OtherError ''AttributeError'')
                                 | Some h \<Rightarrow> dispatch w cm' archbits h a)))))"

section \<open>\<^verbatim>\<open>main\<close>: building the argument parser\<close>

text \<open>
  The local variables of \<^verbatim>\<open>main\<close> name parser objects; the objects live in a store,
  since \<^verbatim>\<open>subparsers\<close> keeps a reference to each parser that \<^verbatim>\<open>add_parser\<close> returns and
  \<^verbatim>\<open>add_argument\<close> changes the parser in place.  A local that has not been assigned yet
  has no entry, and reading it raises \<^verbatim>\<open>UnboundLocalError\<close>: \<^verbatim>\<open>parser_sim\<close> is a local
  of \<^verbatim>\<open>main\<close> because \<^verbatim>\<open>main\<close> assigns it (line 458).
\<close>

record frame =
  locals :: "string \<Rightarrow> nat option"
  store :: "nat \<Rightarrow> pobj option"
  next_id :: nat

definition empty_frame :: frame where
  "empty_frame = \<lparr>locals = (\<lambda>_. None), store = (\<lambda>_. None), next_id = 0\<rparr>"

definition load_local :: "frame \<Rightarrow> string \<Rightarrow> pyexn + nat" where
  "load_local f v = (case locals f v of None \<Rightarrow> Inl (UnboundLocalError v) | Some r \<Rightarrow> Inr r)"

definition alloc :: "frame \<Rightarrow> string \<Rightarrow> pobj \<Rightarrow> frame" where
  "alloc f v obj =
     f\<lparr>locals := (locals f)(v \<mapsto> next_id f),
       store := (store f)(next_id f \<mapsto> obj),
       next_id := Suc (next_id f)\<rparr>"

text \<open>\<^verbatim>\<open>v = argparse.ArgumentParser()\<close>\<close>

definition new_parser :: "string \<Rightarrow> frame \<Rightarrow> pyexn + frame" where
  "new_parser v f = Inr (alloc f v (Parser [] None))"

text \<open>\<^verbatim>\<open>v = p.add_subparsers()\<close>\<close>

definition add_subparsers :: "string \<Rightarrow> string \<Rightarrow> frame \<Rightarrow> pyexn + frame" where
  "add_subparsers v p f =
     (case load_local f p of
        Inl e \<Rightarrow> Inl e
      | Inr r \<Rightarrow> Inr (alloc f v (SubParsers [])))"

text \<open>\<^verbatim>\<open>v = sp.add_parser(name, help=...)\<close>\<close>

definition add_parser :: "string \<Rightarrow> string \<Rightarrow> string \<Rightarrow> frame \<Rightarrow> pyexn + frame" where
  "add_parser v sp name f =
     (case load_local f sp of
        Inl e \<Rightarrow> Inl e
      | Inr r \<Rightarrow>
          (case store f r of
             Some (SubParsers choices) \<Rightarrow>
               Inr (alloc (f\<lparr>store := (store f)(r \<mapsto> SubParsers (choices @ [(name, next_id f)]))\<rparr>)
                      v (Parser [] None))
           | _ \<Rightarrow> Inl (OtherError ''AttributeError'')))"

text \<open>\<^verbatim>\<open>p.add_argument(name, ...)\<close>\<close>

definition add_argument :: "string \<Rightarrow> string \<Rightarrow> arg_action \<Rightarrow> frame \<Rightarrow> pyexn + frame" where
  "add_argument p name action f =
     (case load_local f p of
        Inl e \<Rightarrow> Inl e
      | Inr r \<Rightarrow>
          (case store f r of
             Some (Parser arguments func) \<Rightarrow>
               Inr (f\<lparr>store := (store f)(r \<mapsto> Parser (arguments @ [(name, action)]) func)\<rparr>)
           | _ \<Rightarrow> Inl (OtherError ''AttributeError'')))"

text \<open>\<^verbatim>\<open>p.set_defaults(func=h)\<close>\<close>

definition set_defaults :: "string \<Rightarrow> handler \<Rightarrow> frame \<Rightarrow> pyexn + frame" where
  "set_defaults p h f =
     (case load_local f p of
        Inl e \<Rightarrow> Inl e
      | Inr r \<Rightarrow>
          (case store f r of
             Some (Parser arguments func) \<Rightarrow>
               Inr (f\<lparr>store := (store f)(r \<mapsto> Parser arguments (Some h))\<rparr>)
           | _ \<Rightarrow> Inl (OtherError ''AttributeError'')))"

text \<open>Statements in sequence: the first exception ends the block.\<close>

fun exec_block :: "(frame \<Rightarrow> pyexn + frame) list \<Rightarrow> frame \<Rightarrow> pyexn + frame" where
  "exec_block [] f = Inr f"
| "exec_block (s # ss) f = (case s f of Inl e \<Rightarrow> Inl e | Inr f' \<Rightarrow> exec_block ss f')"

text \<open>Lines 348 to 401 of \<^verbatim>\<open>main\<close>: the global options and the first eight subparsers.\<close>

definition main_global :: "(frame \<Rightarrow> pyexn + frame) list" where
  "main_global =
     [new_parser ''parser'',
      add_subparsers ''subparsers'' ''parser'',
      add_argument ''parser'' ''--version'' Version,
      add_argument ''parser'' ''--cores-root'' Append,
      add_argument ''parser'' ''--32'' StoreTrue,
      add_argument ''parser'' ''--64'' StoreTrue,
      add_argument ''parser'' ''--monochrome'' StoreTrue,
      add_argument ''parser'' ''--verbose'' StoreTrue]"

definition main_build :: "(frame \<Rightarrow> pyexn + frame) list" where
  "main_build =
     [add_parser ''parser_build'' ''subparsers'' ''build'',
      add_argument ''parser_build'' ''--no-export'' StoreTrue,
      add_argument ''parser_build'' ''--setup'' StoreTrue,
      add_argument ''parser_build'' ''--target'' Store,
      add_argument ''parser_build'' ''system'' Store,
      add_argument ''parser_build'' ''backendargs'' Remainder,
      set_defaults ''parser_build'' H_build]"

definition main_init_pgm_fetch :: "(frame \<Rightarrow> pyexn + frame) list" where
  "main_init_pgm_fetch =
     [add_parser ''parser_init'' ''subparsers'' ''init'',
      add_argument ''parser_init'' ''-y'' StoreTrue,
      set_defaults ''parser_init'' H_init,
      add_parser ''parser_pgm'' ''subparsers'' ''pgm'',
      add_argument ''parser_pgm'' ''system'' Store,
      add_argument ''parser_pgm'' ''backendargs'' Remainder,
      set_defaults ''parser_pgm'' H_pgm,
      add_parser ''parser_fetch'' ''subparsers'' ''fetch'',
      add_argument ''parser_fetch'' ''core'' Store,
      set_defaults ''parser_fetch'' H_fetch]"

definition main_list_info :: "(frame \<Rightarrow> pyexn + frame) list" where
  "main_list_info =
     [add_parser ''parser_list_systems'' ''subparsers'' ''list-systems'',
      set_defaults ''parser_list_systems'' H_list_systems,
      add_parser ''parser_list_cores'' ''subparsers'' ''list-cores'',
      set_defaults ''parser_list_cores'' H_list_cores,
      add_parser ''parser_core_info'' ''subparsers'' ''core-info'',
      add_argument ''parser_core_info'' ''core'' Store,
      set_defaults ''parser_core_info'' H_core_info,
      add_parser ''parser_list_paths'' ''subparsers'' ''list-paths'',
      set_defaults ''parser_list_paths'' H_list_paths]"

text \<open>
  Lines 446 to 455, the \<^verbatim>\<open>run\<close> subparser.  The third statement is written
  \<^verbatim>\<open>parser_sim.add_argument('--no-export', ...)\<close> in the source.
\<close>

definition main_run :: "(frame \<Rightarrow> pyexn + frame) list" where
  "main_run =
     [add_parser ''parser_run'' ''subparsers'' ''run'',
      add_argument ''parser_run'' ''tool'' Store,
      add_argument ''parser_sim'' ''--no-export'' StoreTrue,
      add_argument ''parser_run'' ''--setup'' StoreTrue,
      add_argument ''parser_run'' ''--build'' StoreTrue,
      add_argument ''parser_run'' ''--launch'' StoreTrue,
      add_argument ''parser_run'' ''--target'' Store,
      add_argument ''parser_run'' ''system'' Store,
      add_argument ''parser_run'' ''backendargs'' Remainder,
      set_defaults ''parser_run'' H_run_flow]"

text \<open>Lines 458 to 473, the \<^verbatim>\<open>sim\<close> and \<^verbatim>\<open>update\<close> subparsers.\<close>

definition main_sim_update :: "(frame \<Rightarrow> pyexn + frame) list" where
  "main_sim_update =
     [add_parser ''parser_sim'' ''subparsers'' ''sim'',
      add_argument ''parser_sim'' ''--no-export'' StoreTrue,
      add_argument ''parser_sim'' ''--sim'' Store,
      add_argument ''parser_sim'' ''--setup'' StoreTrue,
      add_argument ''parser_sim'' ''--build-only'' StoreTrue,
      add_argument ''parser_sim'' ''--force'' StoreTrue,
      add_argument ''parser_sim'' ''--keep'' StoreTrue,
      add_argument ''parser_sim'' ''--target'' Store,
      add_argument ''parser_sim'' ''--testbench'' Store,
      add_argument ''parser_sim'' ''system'' Store,
      add_argument ''parser_sim'' ''backendargs'' Remainder,
      set_defaults ''parser_sim'' H_sim,
      add_parser ''parser_update'' ''subparsers'' ''update'',
      set_defaults ''parser_update'' H_update]"

definition main_parsers :: "frame \<Rightarrow> pyexn + frame" where
  "main_parsers =
     exec_block (main_global @ main_build @ main_init_pgm_fetch @ main_list_info
                 @ main_run @ main_sim_update)"

text \<open>
  \<^verbatim>\<open>
      parsed_args = parser.parse_args()
      if hasattr(parsed_args, 'func'):
          run(parsed_args)
      else:
          parser.print_help()
  \<close>
  \<open>argv\<close> is the command line after the program name.  Printing the help is the event
  \<open>Print ''help''\<close>.
\<close>

definition main ::
  "('cm, 'core, 'api, 'bk) world \<Rightarrow> 'cm \<Rightarrow> string list \<Rightarrow> 'cm \<times> unit res" where
  "main w cm argv =
     (case main_parsers empty_frame of
        Inl e \<Rightarrow> (cm, raise e)
      | Inr f \<Rightarrow>
          (case load_local f ''parser'' of
             Inl e \<Rightarrow> (cm, raise e)
           | Inr p \<Rightarrow>
               (case w_parse_args w (store f) p argv of
                  Inl e \<Rightarrow> (cm, raise e)
                | Inr parsed_args \<Rightarrow>
                    (case arg_func parsed_args of
                       Some h \<Rightarrow> run w cm parsed_args
                     | None \<Rightarrow> (cm, py_print ''help'')))))"

section \<open>The core registry, from the specification\<close>

text \<open>
  \<^verbatim>\<open>fusesoc/coremanager.py\<close>, which defines \<^verbatim>\<open>CoreManager\<close> with \<^verbatim>\<open>add_cores_root\<close>,
  \<^verbatim>\<open>get_core\<close> and the dependency resolution, is not among the sources.  What the
  properties below need of it is modelled from sections 3 and 4 of the specification.
\<close>

text \<open>
  Modelled from the spec: the identity of a core (the class \<^verbatim>\<open>Vlnv\<close> is missing).
  ``Four ordered components, vendor, library, name, version, each optional except
  name.''  A version is a sequence of numbers.
\<close>

record identity =
  id_vendor :: "string option"
  id_library :: "string option"
  id_name :: string
  id_version :: "nat list option"

text \<open>
  Modelled from the spec: a dependency constraint (missing with \<^verbatim>\<open>coremanager.py\<close>).
  ``Version components support relational comparison when used in a dependency
  constraint'', and ``a dependency constraint itself may be conditional on a flag being
  set''.
\<close>

datatype relop = Eq | Ge | Gt | Le | Lt

record constraint =
  c_vendor :: "string option"
  c_library :: "string option"
  c_name :: string
  c_version :: "(relop \<times> nat list) option"
  c_flag :: "string option"

text \<open>
  Modelled from the spec: the parsed metadata of a core (the core class is missing):
  its identity, its parameters with their datatype and default, and for each flow the
  dependencies of its target.  File sets, tool options and the provider play no part in
  the properties below and are left out.
\<close>

record param =
  p_datatype :: string
  p_default :: string

record descriptor =
  d_identity :: identity
  d_parameters :: "(string \<times> param) list"
  d_targets :: "(string \<times> constraint list) list"

text \<open>
  Modelled from the spec: the registry (the state of \<^verbatim>\<open>CoreManager\<close> is missing), ``an
  explicit ordered list'' of search roots ``plus a lookup table'': each registered
  descriptor with the root that supplied it, in registration order.
\<close>

record registry =
  reg_roots :: "string list"
  reg_entries :: "(string \<times> descriptor) list"

definition empty_registry :: registry where
  "empty_registry = \<lparr>reg_roots = [], reg_entries = []\<rparr>"

text \<open>
  Modelled from the spec: \<^verbatim>\<open>add_root(path)\<close> (missing with \<^verbatim>\<open>CoreManager\<close>).  It ``fails
  with a RootNotFoundError if the path does not exist or is unreadable; it otherwise
  scans recursively for core metadata files and parses each into a Core Descriptor,
  replacing any earlier-registered Descriptor of the identical identity (newer
  registration wins)''.  The file system is a function from a path to the descriptors
  found under it, \<open>None\<close> for a path that does not exist; the error is the \<^verbatim>\<open>IOError\<close>
  that \<^verbatim>\<open>run\<close> catches.
\<close>

definition add_root ::
  "(string \<Rightarrow> descriptor list option) \<Rightarrow> registry \<Rightarrow> string \<Rightarrow> registry \<times> pyexn option" where
  "add_root fs reg path =
     (case fs path of
        None \<Rightarrow> (reg, Some (IOError path))
      | Some ds \<Rightarrow>
          (\<lparr>reg_roots = reg_roots reg @ [path],
            reg_entries =
              filter (\<lambda>(r, d). d_identity d \<notin> d_identity ` set ds) (reg_entries reg)
              @ map (Pair path) ds\<rparr>,
           None))"

text \<open>
  Modelled from the spec: \<^verbatim>\<open>CoreManager.add_cores_root\<close>, which \<^verbatim>\<open>run\<close> calls with a
  group of roots.  The roots of the group are added in their order, the first failure
  ends the call and surfaces to the caller (``recoverable: caller logs and continues''),
  and a group that is \<^verbatim>\<open>None\<close> adds nothing.
\<close>

fun add_roots ::
  "(string \<Rightarrow> descriptor list option) \<Rightarrow> registry \<Rightarrow> string list
     \<Rightarrow> registry \<times> pyexn option" where
  "add_roots fs reg [] = (reg, None)"
| "add_roots fs reg (p # ps) =
     (case add_root fs reg p of
        (reg', Some e) \<Rightarrow> (reg', Some e)
      | (reg', None) \<Rightarrow> add_roots fs reg' ps)"

definition add_cores_root ::
  "(string \<Rightarrow> descriptor list option) \<Rightarrow> registry \<Rightarrow> string list option
     \<Rightarrow> registry \<times> pyexn option" where
  "add_cores_root fs reg grp =
     (case grp of None \<Rightarrow> (reg, None) | Some ps \<Rightarrow> add_roots fs reg ps)"






text \<open>The calls made on the backend object, read off the events of a run.\<close>

fun backend_ops :: "event list \<Rightarrow> event list" where
  "backend_ops [] = []"
| "backend_ops (BackendConfigure a # t) = BackendConfigure a # backend_ops t"
| "backend_ops (BackendBuild # t) = BackendBuild # backend_ops t"
| "backend_ops (BackendRun a # t) = BackendRun a # backend_ops t"
| "backend_ops (_ # t) = backend_ops t"

section \<open>The dependency resolver, from the specification\<close>

text \<open>
  Modelled from the spec: partial match of identities (\<^verbatim>\<open>Vlnv\<close> is missing).  ``Two
  identities match if every component present in the query matches the corresponding
  component of the candidate; an absent query component matches any value.''
\<close>

definition component_matches :: "'a option \<Rightarrow> 'a option \<Rightarrow> bool" where
  "component_matches q c = (case q of None \<Rightarrow> True | Some x \<Rightarrow> c = Some x)"

text \<open>
  Modelled from the spec: \<^verbatim>\<open>compare_version\<close> (missing with \<^verbatim>\<open>Vlnv\<close>), on versions
  that are sequences of numbers: the order by the first component that differs, a
  proper prefix being smaller.
\<close>

fun version_less :: "nat list \<Rightarrow> nat list \<Rightarrow> bool" where
  "version_less [] [] = False"
| "version_less [] (y # ys) = True"
| "version_less (x # xs) [] = False"
| "version_less (x # xs) (y # ys) = (x < y \<or> (x = y \<and> version_less xs ys))"

definition version_ok :: "relop \<Rightarrow> nat list \<Rightarrow> nat list \<Rightarrow> bool" where
  "version_ok rel v bound =
     (case rel of
        Eq \<Rightarrow> v = bound
      | Ge \<Rightarrow> \<not> version_less v bound
      | Gt \<Rightarrow> version_less bound v
      | Le \<Rightarrow> \<not> version_less bound v
      | Lt \<Rightarrow> version_less v bound)"

text \<open>
  Modelled from the spec: when a registered identity answers a dependency constraint
  (missing with \<^verbatim>\<open>coremanager.py\<close>): partial match on vendor, library and name, and
  the relation of the constraint on the version.
\<close>

definition satisfies :: "constraint \<Rightarrow> identity \<Rightarrow> bool" where
  "satisfies c i =
     (component_matches (c_vendor c) (id_vendor i)
      \<and> component_matches (c_library c) (id_library i)
      \<and> c_name c = id_name i
      \<and> (case c_version c of
            None \<Rightarrow> True
          | Some (rel, bound) \<Rightarrow>
              (case id_version i of None \<Rightarrow> False | Some v \<Rightarrow> version_ok rel v bound)))"

text \<open>
  Modelled from the spec: \<^verbatim>\<open>lookup\<close> of the registry (missing with \<^verbatim>\<open>CoreManager\<close>).
  ``If multiple descriptors match, the one whose identity is the best (most-specific,
  then most-recently-registered) match is returned, deterministically.''  An identity
  is the more specific the more of its optional components are present.
\<close>

definition specificity :: "identity \<Rightarrow> nat" where
  "specificity i =
     (if id_vendor i = None then 0 else 1) + (if id_library i = None then 0 else 1)
     + (if id_version i = None then 0 else 1)"

fun best :: "descriptor list \<Rightarrow> descriptor option" where
  "best [] = None"
| "best (d # ds) =
     (case best ds of
        None \<Rightarrow> Some d
      | Some b \<Rightarrow>
          if specificity (d_identity b) < specificity (d_identity d) then Some d else Some b)"

definition lookup :: "registry \<Rightarrow> constraint \<Rightarrow> descriptor option" where
  "lookup reg c =
     best (filter (\<lambda>d. satisfies c (d_identity d)) (map snd (reg_entries reg)))"

text \<open>
  Modelled from the spec: the failures of resolution and synthesis (section 7; the
  exception classes are missing with \<^verbatim>\<open>coremanager.py\<close>).  A \<open>DependencyError\<close> carries
  the unresolved constraint and the chain of cores that required it, a
  \<open>CyclicDependencyError\<close> the cycle, a \<open>VersionConflictError\<close> the name of the core, the
  requirement that cannot be met and the identity that stands against it.
\<close>

datatype resolve_error =
    E_CoreNotFound constraint
  | E_FlowNotSupported identity string
  | E_Dependency constraint "identity list"
  | E_CyclicDependency "identity list"
  | E_VersionConflict string constraint identity
  | E_ParameterConflict string

text \<open>
  Modelled from the spec: a dependency edge under the active flags (missing with
  \<^verbatim>\<open>coremanager.py\<close>).  ``An unset flag removes that edge from the graph entirely.''
\<close>

definition active :: "string list \<Rightarrow> constraint \<Rightarrow> bool" where
  "active flags c = (case c_flag c of None \<Rightarrow> True | Some f \<Rightarrow> f \<in> set flags)"

text \<open>
  Modelled from the spec: the two ways a dependency fails to resolve (missing with
  \<^verbatim>\<open>coremanager.py\<close>).  ``For a dependency name absent from every registered root,
  resolution fails with DependencyError''; when the registry holds the core but in no
  version that meets the requirement, it ``fails with VersionConflictError''.  The
  constraint without its version requirement tells the two apart.
\<close>

definition any_version :: "constraint \<Rightarrow> constraint" where
  "any_version c = c\<lparr>c_version := None\<rparr>"

text \<open>
  The identity already resolved, in the closure or on the traversal stack, for the name
  of the identity \<open>i\<close>, when it is another identity.
\<close>

definition conflicting :: "identity list \<Rightarrow> identity \<Rightarrow> identity option" where
  "conflicting known i = find (\<lambda>k. id_name k = id_name i \<and> k \<noteq> i) known"

text \<open>
  Modelled from the spec: the traversal of section 4.3 (\<^verbatim>\<open>resolve\<close> is missing with
  \<^verbatim>\<open>CoreManager\<close>).  ``Depth-first traversal from the root identity.  At each core, select
  its targets[flow] entry (fails with FlowNotSupportedError if the core has no such flow
  and is not itself a pure dependency-only leaf); collect that entry's dependency
  constraints.  For each constraint, lookup the best match in the Registry; if none
  found, fail with DependencyError.  Recurse into each dependency before adding the
  current core to the closure.''  A core on the traversal stack is a cycle; a core
  already in the closure is not visited again; another identity of a name already
  resolved, or a core held only in versions that do not meet the requirement, is a
  version conflict.  A dependency-only leaf is a core that declares no
  target at all.

  \<open>visit\<close> relates a core that is entered, with the stack and the closure so far, to the
  outcome; \<open>walk\<close> does so for a sequence of constraints.
\<close>

inductive
  visit :: "registry \<Rightarrow> string \<Rightarrow> string list \<Rightarrow> identity list \<Rightarrow> descriptor
     \<Rightarrow> descriptor list \<Rightarrow> resolve_error + descriptor list \<Rightarrow> bool"
  and walk :: "registry \<Rightarrow> string \<Rightarrow> string list \<Rightarrow> identity list \<Rightarrow> constraint list
     \<Rightarrow> descriptor list \<Rightarrow> resolve_error + descriptor list \<Rightarrow> bool"
where
  visit_leaf:
    "map_of (d_targets d) flow = None \<Longrightarrow> d_targets d = [] \<Longrightarrow>
     visit reg flow flags stack d cl (Inr (cl @ [d]))"
| visit_no_flow:
    "map_of (d_targets d) flow = None \<Longrightarrow> d_targets d \<noteq> [] \<Longrightarrow>
     visit reg flow flags stack d cl (Inl (E_FlowNotSupported (d_identity d) flow))"
| visit_failed:
    "map_of (d_targets d) flow = Some deps \<Longrightarrow>
     walk reg flow flags (stack @ [d_identity d]) deps cl (Inl e) \<Longrightarrow>
     visit reg flow flags stack d cl (Inl e)"
| visit_done:
    "map_of (d_targets d) flow = Some deps \<Longrightarrow>
     walk reg flow flags (stack @ [d_identity d]) deps cl (Inr cl') \<Longrightarrow>
     visit reg flow flags stack d cl (Inr (cl' @ [d]))"
| walk_end:
    "walk reg flow flags stack [] cl (Inr cl)"
| walk_inactive:
    "\<not> active flags c \<Longrightarrow> walk reg flow flags stack cs cl r \<Longrightarrow>
     walk reg flow flags stack (c # cs) cl r"
| walk_missing:
    "active flags c \<Longrightarrow> lookup reg c = None \<Longrightarrow> lookup reg (any_version c) = None \<Longrightarrow>
     walk reg flow flags stack (c # cs) cl (Inl (E_Dependency c stack))"
| walk_unmet:
    "active flags c \<Longrightarrow> lookup reg c = None \<Longrightarrow> lookup reg (any_version c) = Some d \<Longrightarrow>
     walk reg flow flags stack (c # cs) cl
       (Inl (E_VersionConflict (c_name c) c (d_identity d)))"
| walk_cycle:
    "active flags c \<Longrightarrow> lookup reg c = Some d \<Longrightarrow> d_identity d \<in> set stack \<Longrightarrow>
     walk reg flow flags stack (c # cs) cl (Inl (E_CyclicDependency (stack @ [d_identity d])))"
| walk_seen:
    "active flags c \<Longrightarrow> lookup reg c = Some d \<Longrightarrow> d_identity d \<notin> set stack \<Longrightarrow>
     d_identity d \<in> set (map d_identity cl) \<Longrightarrow>
     walk reg flow flags stack cs cl r \<Longrightarrow>
     walk reg flow flags stack (c # cs) cl r"
| walk_conflict:
    "active flags c \<Longrightarrow> lookup reg c = Some d \<Longrightarrow> d_identity d \<notin> set stack \<Longrightarrow>
     d_identity d \<notin> set (map d_identity cl) \<Longrightarrow>
     conflicting (map d_identity cl @ stack) (d_identity d) = Some k \<Longrightarrow>
     walk reg flow flags stack (c # cs) cl (Inl (E_VersionConflict (c_name c) c k))"
| walk_failed:
    "active flags c \<Longrightarrow> lookup reg c = Some d \<Longrightarrow> d_identity d \<notin> set stack \<Longrightarrow>
     d_identity d \<notin> set (map d_identity cl) \<Longrightarrow>
     conflicting (map d_identity cl @ stack) (d_identity d) = None \<Longrightarrow>
     visit reg flow flags stack d cl (Inl e) \<Longrightarrow>
     walk reg flow flags stack (c # cs) cl (Inl e)"
| walk_next:
    "active flags c \<Longrightarrow> lookup reg c = Some d \<Longrightarrow> d_identity d \<notin> set stack \<Longrightarrow>
     d_identity d \<notin> set (map d_identity cl) \<Longrightarrow>
     conflicting (map d_identity cl @ stack) (d_identity d) = None \<Longrightarrow>
     visit reg flow flags stack d cl (Inr cl') \<Longrightarrow>
     walk reg flow flags stack cs cl' r \<Longrightarrow>
     walk reg flow flags stack (c # cs) cl r"

text \<open>
  Modelled from the spec: the merge of parameters of section 4.4 (the synthesizer is
  missing with \<^verbatim>\<open>coremanager.py\<close>).  ``Merge parameter maps in dependency-first order;
  if two cores declare a parameter with the same name but different datatype, fail with
  ParameterConflictError; later declarations override earlier ones.''
\<close>

fun merge_parameters ::
  "(string \<times> param) list \<Rightarrow> (string \<times> param) list
     \<Rightarrow> resolve_error + (string \<times> param) list" where
  "merge_parameters acc [] = Inr acc"
| "merge_parameters acc ((n, p) # ps) =
     (case map_of acc n of
        None \<Rightarrow> merge_parameters (acc @ [(n, p)]) ps
      | Some q \<Rightarrow>
          if p_datatype q = p_datatype p then merge_parameters (dict_set acc n p) ps
          else Inl (E_ParameterConflict n))"

text \<open>
  Modelled from the spec: the resolved closure (section 3): ``an ordered sequence of Core
  Descriptors (dependency-first) plus the accumulated, merged parameters''.
\<close>

record closure =
  cl_cores :: "descriptor list"
  cl_parameters :: "(string \<times> param) list"

text \<open>
  Modelled from the spec: the query for a root identity (missing with \<^verbatim>\<open>Vlnv\<close>): its
  components, the version to be matched exactly when present.
\<close>

definition root_query :: "identity \<Rightarrow> constraint" where
  "root_query i =
     \<lparr>c_vendor = id_vendor i, c_library = id_library i, c_name = id_name i,
      c_version = map_option (Pair Eq) (id_version i), c_flag = None\<rparr>"

text \<open>
  Modelled from the spec: \<^verbatim>\<open>resolve(root_identity, flow, flags)\<close> (missing with
  \<^verbatim>\<open>CoreManager\<close>): the root is looked up (\<open>CoreNotFoundError\<close> when nothing matches),
  the traversal starts from it with an empty stack and an empty closure, and the
  parameters of the closure are merged.
\<close>

inductive resolves ::
  "registry \<Rightarrow> identity \<Rightarrow> string \<Rightarrow> string list \<Rightarrow> resolve_error + closure \<Rightarrow> bool" where
  resolve_not_found:
    "lookup reg (root_query root) = None \<Longrightarrow>
     resolves reg root flow flags (Inl (E_CoreNotFound (root_query root)))"
| resolve_failed:
    "lookup reg (root_query root) = Some d \<Longrightarrow>
     visit reg flow flags [] d [] (Inl e) \<Longrightarrow>
     resolves reg root flow flags (Inl e)"
| resolve_conflict:
    "lookup reg (root_query root) = Some d \<Longrightarrow>
     visit reg flow flags [] d [] (Inr cl) \<Longrightarrow>
     merge_parameters [] (concat (map d_parameters cl)) = Inl e \<Longrightarrow>
     resolves reg root flow flags (Inl e)"
| resolve_done:
    "lookup reg (root_query root) = Some d \<Longrightarrow>
     visit reg flow flags [] d [] (Inr cl) \<Longrightarrow>
     merge_parameters [] (concat (map d_parameters cl)) = Inr ps \<Longrightarrow>
     resolves reg root flow flags (Inr \<lparr>cl_cores = cl, cl_parameters = ps\<rparr>)"

code_pred (modes: i \<Rightarrow> i \<Rightarrow> i \<Rightarrow> i \<Rightarrow> i \<Rightarrow> i \<Rightarrow> o \<Rightarrow> bool) visit .

code_pred (modes: i \<Rightarrow> i \<Rightarrow> i \<Rightarrow> i \<Rightarrow> o \<Rightarrow> bool) resolves .

section \<open>Auxiliary notions for the properties of \<^verbatim>\<open>run_backend\<close>\<close>

text \<open>The backend calls of the stages that are switched on, in the order of the source.\<close>

definition enabled_ops :: "bool \<Rightarrow> bool \<Rightarrow> bool \<Rightarrow> string list \<Rightarrow> event list" where
  "enabled_ops do_configure do_build do_run backendargs =
     (if do_configure then [BackendConfigure backendargs] else [])
     @ (if do_build then [BackendBuild] else [])
     @ (if do_run then [BackendRun backendargs] else [])"

text \<open>
  \<^verbatim>\<open>run_backend\<close> gets as far as its stages: the core is found, it names a tool, the
  EDA API is built and the backend object is constructed.
\<close>

definition reaches_stages ::
  "('core, 'api, 'bk) collab \<Rightarrow> string \<Rightarrow> bool \<Rightarrow> flags \<Rightarrow> string \<Rightarrow> 'core \<Rightarrow> string \<Rightarrow> 'api
     \<Rightarrow> 'bk \<Rightarrow> bool" where
  "reaches_stages env tool_type export flags system core tool eda_api backend =
     (cm_get_core env system = Inr core
      \<and> core_get_tool env core flags = Inr (Some tool) \<and> tool \<noteq> []
      \<and> cm_get_eda_api env core (dict_set flags ''tool'' (Some tool))
            (export_root_of env core export) = Inr eda_api
      \<and> priv_import env tool eda_api (work_root_of env core tool_type tool) = Inr backend)"

text \<open>The events of \<^verbatim>\<open>run_backend\<close> before its stages, when it reaches them.\<close>

definition before_stages ::
  "('core, 'api, 'bk) collab \<Rightarrow> string \<Rightarrow> bool \<Rightarrow> flags \<Rightarrow> 'core \<Rightarrow> string \<Rightarrow> event list" where
  "before_stages env tool_type export flags core tool =
     [GetEdaApi (dict_set flags ''tool'' (Some tool)) (export_root_of env core export),
      NewBackend tool (work_root_of env core tool_type tool)]"

text \<open>The events of a configure stage that succeeds.\<close>

definition configured ::
  "('core, 'api, 'bk) collab \<Rightarrow> bool \<Rightarrow> flags \<Rightarrow> 'core \<Rightarrow> string \<Rightarrow> string list \<Rightarrow> event list" where
  "configured env export flags core tool backendargs =
     [CmSetup (dict_set flags ''tool'' (Some tool)) export (export_root_of env core export),
      BackendConfigure backendargs, Print []]"

section \<open>Sample collaborators\<close>

text \<open>
  A core manager that knows no core \<open>missing\<close> and cannot read \<open>broken\<close>; cores named
  \<open>bare\<close> declare no tool, the others use the tool of the flags or \<open>icarus\<close>; the core
  \<open>loop\<close> has unresolved dependencies; the backend is named after its class and fails
  when one of its arguments asks for it.
\<close>

definition sample_collab :: "(string, unit, string) collab" where
  "sample_collab =
     \<lparr>cm_get_core =
        (\<lambda>n. if n = ''missing'' then Inl (DependencyError ''jtag_tap'' ''jtag_tap not found'')
             else if n = ''broken'' then Inl (RuntimeError ''bad core file'')
             else Inr n),
      core_get_tool =
        (\<lambda>c f. if c = ''bare'' then Inr None
               else (case map_of f ''tool'' of
                       Some (Some t) \<Rightarrow> Inr (Some t)
                     | _ \<Rightarrow> Inr (Some ''icarus''))),
      core_sanitized_name = (\<lambda>c. c),
      config_build_root = ''build'',
      cm_get_eda_api =
        (\<lambda>c f r. if c = ''loop'' then Inl (DependencyError ''loop'' ''cycle'') else Inr ()),
      import_backend = (\<lambda>m cls api wr. Inr cls),
      cm_setup = (\<lambda>c f e r. None),
      bk_configure =
        (\<lambda>b a. if ''--fail-configure'' \<in> set a then Some (RuntimeError ''no project'') else None),
      bk_build =
        (\<lambda>b. if b = ''Ghdl'' then Some (RuntimeError ''ghdl not installed'') else None),
      bk_run =
        (\<lambda>b a. if ''--fail-run'' \<in> set a then Some (RuntimeError ''exit 2'') else None)\<rparr>"

definition sample_core :: "string \<Rightarrow> descriptor" where
  "sample_core n =
     \<lparr>d_identity = \<lparr>id_vendor = None, id_library = None, id_name = n, id_version = None\<rparr>,
      d_parameters = [],
      d_targets = []\<rparr>"

text \<open>Four directories; \<open>uart\<close> is found under three of them.\<close>

definition sample_fs :: "string \<Rightarrow> descriptor list option" where
  "sample_fs p =
     (if p = ''/etc/cores'' then Some [sample_core ''uart'', sample_core ''spi'']
      else if p = ''/env/a'' then Some [sample_core ''uart'', sample_core ''i2c'']
      else if p = ''/env/b'' then Some [sample_core ''i2c'']
      else if p = ''/cli'' then Some [sample_core ''uart'']
      else None)"

definition sample_args :: args where
  "sample_args =
     \<lparr>arg_cores_root = Some [''/cli''], arg_32 = False, arg_64 = False,
      arg_monochrome = False, arg_verbose = False, arg_func = Some H_build,
      arg_system = ''soc'', arg_backendargs = [], arg_target = None, arg_setup = False,
      arg_no_export = False, arg_build = False, arg_launch = False, arg_tool = ''icarus'',
      arg_sim = None, arg_keep = False, arg_build_only = False, arg_testbench = None\<rparr>"

definition sample_world :: "(registry, string, unit, string) world" where
  "sample_world =
     \<lparr>w_setup_logging = (\<lambda>v m. None),
      w_argv_str = ''[]'',
      w_list_str = concat,
      w_fusesoc_cores = Some ''/env/a:/env/b'',
      w_config_cores_root = Some [''/etc/cores'', ''/nowhere''],
      w_config_systems_root = None,
      w_add_cores_root = add_cores_root sample_fs,
      w_platform_64bit = True,
      w_collab = (\<lambda>cm bits. sample_collab),
      w_other_handler = (\<lambda>h cm bits a. ret ()),
      w_parse_args = (\<lambda>st p argv. Inr sample_args)\<rparr>"

text \<open>
  Two cores for the simulation flow: \<open>soc\<close> depends on \<open>uart\<close>, and both declare the
  parameter \<open>width\<close>.
\<close>

definition uart_core :: descriptor where
  "uart_core =
     \<lparr>d_identity = \<lparr>id_vendor = None, id_library = None, id_name = ''uart'',
                    id_version = Some [1, 0]\<rparr>,
      d_parameters = [(''width'', \<lparr>p_datatype = ''int'', p_default = ''8''\<rparr>)],
      d_targets = [(''sim'', [])]\<rparr>"

definition soc_core :: descriptor where
  "soc_core =
     \<lparr>d_identity = \<lparr>id_vendor = None, id_library = None, id_name = ''soc'',
                    id_version = None\<rparr>,
      d_parameters = [(''width'', \<lparr>p_datatype = ''int'', p_default = ''16''\<rparr>),
                      (''depth'', \<lparr>p_datatype = ''int'', p_default = ''4''\<rparr>)],
      d_targets =
        [(''sim'', [\<lparr>c_vendor = None, c_library = None, c_name = ''uart'',
                     c_version = Some (Ge, [1]), c_flag = None\<rparr>])]\<rparr>"

definition soc_registry :: registry where
  "soc_registry =
     \<lparr>reg_roots = [''/cli''], reg_entries = [(''/cli'', uart_core), (''/cli'', soc_core)]\<rparr>"

definition soc_closure :: closure where
  "soc_closure =
     \<lparr>cl_cores = [uart_core, soc_core],
      cl_parameters = [(''width'', \<lparr>p_datatype = ''int'', p_default = ''16''\<rparr>),
                       (''depth'', \<lparr>p_datatype = ''int'', p_default = ''4''\<rparr>)]\<rparr>"

text \<open>Two cores that depend on each other.\<close>

definition needs :: "string \<Rightarrow> constraint" where
  "needs n =
     \<lparr>c_vendor = None, c_library = None, c_name = n, c_version = None, c_flag = None\<rparr>"

definition ping_core :: descriptor where
  "ping_core =
     \<lparr>d_identity = \<lparr>id_vendor = None, id_library = None, id_name = ''ping'',
                    id_version = None\<rparr>,
      d_parameters = [],
      d_targets = [(''sim'', [needs ''pong''])]\<rparr>"

definition pong_core :: descriptor where
  "pong_core =
     \<lparr>d_identity = \<lparr>id_vendor = None, id_library = None, id_name = ''pong'',
                    id_version = None\<rparr>,
      d_parameters = [],
      d_targets = [(''sim'', [needs ''ping''])]\<rparr>"

definition ping_registry :: registry where
  "ping_registry =
     \<lparr>reg_roots = [''/cli''], reg_entries = [(''/cli'', ping_core), (''/cli'', pong_core)]\<rparr>"

text \<open>A core that requires \<open>uart\<close> from version 2, in a registry that holds version 1.0.\<close>

definition uart_from_2 :: constraint where
  "uart_from_2 =
     \<lparr>c_vendor = None, c_library = None, c_name = ''uart'', c_version = Some (Ge, [2]),
      c_flag = None\<rparr>"

definition strict_core :: descriptor where
  "strict_core =
     \<lparr>d_identity = \<lparr>id_vendor = None, id_library = None, id_name = ''strict'',
                    id_version = None\<rparr>,
      d_parameters = [],
      d_targets = [(''sim'', [uart_from_2])]\<rparr>"

definition strict_registry :: registry where
  "strict_registry =
     \<lparr>reg_roots = [''/cli''],
      reg_entries = [(''/cli'', uart_core), (''/cli'', strict_core)]\<rparr>"

section \<open>Properties\<close>

lemma sublist_mid: "sublist xs (a @ xs @ b)"
  by (rule sublist_appendI)

text \<open>
  C7.  For every core name: when the lookup raises a \<^verbatim>\<open>DependencyError\<close>,
  \<^verbatim>\<open>_get_core\<close> logs exactly one error, whose text contains both the requested name and
  the error's value, and exits with status 1; when the lookup raises a
  \<^verbatim>\<open>RuntimeError\<close>, it logs the error's text and exits with status 1.
\<close>

theorem get_core_failure_exits:
  "(cm_get_core env name = Inl (DependencyError v m) \<longrightarrow>
      (\<exists>msg. priv_get_core env name = ([LogError msg], Inl (SystemExit 1))
         \<and> sublist name msg \<and> sublist v msg))
   \<and> (cm_get_core env name = Inl (RuntimeError s) \<longrightarrow>
      priv_get_core env name = ([LogError s], Inl (SystemExit 1)))"
proof (intro conjI impI)
  assume dep: "cm_get_core env name = Inl (DependencyError v m)"
  have run: "priv_get_core env name
      = ([LogError (dependency_message name v)], Inl (SystemExit 1))"
    using dep
    by (simp add: priv_get_core_def try_except_def lift_def get_core_handlers_def
        seq_def bind_def logger_error_def emit_def py_exit_def raise_def)
  have n: "sublist name (dependency_message name v)"
    unfolding dependency_message_def by (rule sublist_mid)
  have "dependency_message name v
      = ([CHR 0x27] @ name @ [CHR 0x27] @ '' or any of its dependencies requires ''
          @ [CHR 0x27]) @ v @ ([CHR 0x27] @ '', but this core was not found'')"
    by (simp add: dependency_message_def)
  then have "sublist v (dependency_message name v)"
    using sublist_mid by metis
  with run n
  show "\<exists>msg. priv_get_core env name = ([LogError msg], Inl (SystemExit 1))
         \<and> sublist name msg \<and> sublist v msg"
    by blast
next
  assume "cm_get_core env name = Inl (RuntimeError s)"
  then show "priv_get_core env name = ([LogError s], Inl (SystemExit 1))"
    by (simp add: priv_get_core_def try_except_def lift_def get_core_handlers_def
        seq_def bind_def logger_error_def emit_def py_exit_def raise_def)
qed

theorem get_core_failure_exits_witness:
  "cm_get_core sample_collab ''missing''
      = Inl (DependencyError ''jtag_tap'' ''jtag_tap not found'')
   \<and> (\<exists>msg. priv_get_core sample_collab ''missing'' = ([LogError msg], Inl (SystemExit 1))
         \<and> sublist ''missing'' msg \<and> sublist ''jtag_tap'' msg)
   \<and> cm_get_core sample_collab ''broken'' = Inl (RuntimeError ''bad core file'')
   \<and> priv_get_core sample_collab ''broken''
        = ([LogError ''bad core file''], Inl (SystemExit 1))"
proof -
  have d: "cm_get_core sample_collab ''missing''
      = Inl (DependencyError ''jtag_tap'' ''jtag_tap not found'')"
    by (simp add: sample_collab_def)
  have r: "cm_get_core sample_collab ''broken'' = Inl (RuntimeError ''bad core file'')"
    by (simp add: sample_collab_def)
  from d r
    get_core_failure_exits [where env = sample_collab and name = "''missing''"
      and v = "''jtag_tap''" and m = "''jtag_tap not found''" and s = "''bad core file''"]
    get_core_failure_exits [where env = sample_collab and name = "''broken''"
      and v = "''jtag_tap''" and m = "''jtag_tap not found''" and s = "''bad core file''"]
  show ?thesis by blast
qed

lemma main_parsers_fails:
  "main_parsers empty_frame = Inl (UnboundLocalError ''parser_sim'')"
  by (simp add: main_parsers_def main_global_def main_build_def main_init_pgm_fetch_def
      main_list_info_def main_run_def new_parser_def add_subparsers_def add_parser_def
      add_argument_def set_defaults_def load_local_def alloc_def empty_frame_def)

text \<open>
  C2.  For every command line (and whatever the collaborators do), \<^verbatim>\<open>main\<close> ends with
  an \<^verbatim>\<open>UnboundLocalError\<close> on \<^verbatim>\<open>parser_sim\<close>, raised while the parser is built: it
  produces no event, so no subcommand is dispatched, and it leaves the core manager as
  it was.
\<close>

theorem main_always_unbound_local:
  "main w cm argv = (cm, ([], Inl (UnboundLocalError ''parser_sim'')))"
  by (simp add: main_def main_parsers_fails raise_def)

theorem main_always_unbound_local_witness:
  "main sample_world empty_registry [''build'', ''soc'']
     = (empty_registry, ([], Inl (UnboundLocalError ''parser_sim'')))"
  by (rule main_always_unbound_local)

text \<open>
  C8.  For every argument set, \<^verbatim>\<open>pgm\<close> ends with a \<^verbatim>\<open>TypeError\<close> at its call of
  \<^verbatim>\<open>run_backend\<close>, before any event: it passes seven arguments for eight parameters,
  \<^verbatim>\<open>backendargs\<close> is the parameter left without a value, and \<^verbatim>\<open>export\<close> would have
  received the value meant for \<^verbatim>\<open>do_configure\<close>.  Dispatched from \<^verbatim>\<open>run\<close>, the handler
  ends the same way, so no backend stage is reached.
\<close>

theorem pgm_type_error:
  "pgm env a = ([], Inl (TypeError ''run_backend''))
   \<and> length (pgm_call_args a) = 7 \<and> length run_backend_params = 8
   \<and> unbound_params run_backend_params (pgm_call_args a) = [''backendargs'']
   \<and> map_of (bind_params run_backend_params (pgm_call_args a)) ''export'' = Some (PBool False)
   \<and> dispatch w cm archbits H_pgm a = ([Dispatch H_pgm], Inl (TypeError ''run_backend''))"
  by (simp add: pgm_def pgm_call_args_def call_run_backend_def run_backend_params_def
      raise_def unbound_params_def bind_params_def dispatch_def seq_def bind_def emit_def)

theorem pgm_type_error_witness:
  "pgm sample_collab sample_args = ([], Inl (TypeError ''run_backend''))"
  by (rule pgm_type_error [THEN conjunct1])

text \<open>
  C9.  \<^verbatim>\<open>run_flow\<close> reaches \<^verbatim>\<open>run_backend\<close> only for the eleven tool names of its two
  lists, as a simulator for the first seven and as a build for the last four; for
  every other tool it ends with an \<^verbatim>\<open>UnboundLocalError\<close> on \<^verbatim>\<open>tool_type\<close>, before any
  event.
\<close>

theorem run_flow_tool_type:
  "(arg_tool a \<notin> {''ghdl'', ''icarus'', ''isim'', ''modelsim'', ''rivierapro'', ''verilator'',
        ''xsim'', ''icestorm'', ''ise'', ''quartus'', ''vivado''} \<longrightarrow>
      run_flow env a = ([], Inl (UnboundLocalError ''tool_type'')))
   \<and> (arg_tool a \<in> {''ghdl'', ''icarus'', ''isim'', ''modelsim'', ''rivierapro'', ''verilator'',
        ''xsim''} \<longrightarrow>
      run_flow env a = call_run_backend env (run_flow_call_args ''simulator'' a))
   \<and> (arg_tool a \<in> {''icestorm'', ''ise'', ''quartus'', ''vivado''} \<longrightarrow>
      run_flow env a = call_run_backend env (run_flow_call_args ''build'' a))"
  by (auto simp add: run_flow_def flow_tool_type_def simulator_tools_def build_tools_def
      raise_def)

theorem run_flow_tool_type_witness:
  "run_flow sample_collab (sample_args\<lparr>arg_tool := ''yosys''\<rparr>)
     = ([], Inl (UnboundLocalError ''tool_type''))
   \<and> run_flow sample_collab (sample_args\<lparr>arg_tool := ''icarus''\<rparr>)
     = call_run_backend sample_collab
         (run_flow_call_args ''simulator'' (sample_args\<lparr>arg_tool := ''icarus''\<rparr>))
   \<and> run_flow sample_collab (sample_args\<lparr>arg_tool := ''vivado''\<rparr>)
     = call_run_backend sample_collab
         (run_flow_call_args ''build'' (sample_args\<lparr>arg_tool := ''vivado''\<rparr>))"
  using run_flow_tool_type [of "sample_args\<lparr>arg_tool := ''yosys''\<rparr>" sample_collab]
    run_flow_tool_type [of "sample_args\<lparr>arg_tool := ''icarus''\<rparr>" sample_collab]
    run_flow_tool_type [of "sample_args\<lparr>arg_tool := ''vivado''\<rparr>" sample_collab]
  by simp

lemma backend_ops_append: "backend_ops (a @ b) = backend_ops a @ backend_ops b"
  by (induction a rule: backend_ops.induct) simp_all

lemma fst_bind: "fst (bind m f) = fst m @ (case snd m of Inl e \<Rightarrow> [] | Inr x \<Rightarrow> fst (f x))"
  by (cases m) (auto simp: bind_def split: sum.splits prod.splits)

lemma snd_bind: "snd (bind m f) = (case snd m of Inl e \<Rightarrow> Inl e | Inr x \<Rightarrow> snd (f x))"
  by (cases m) (auto simp: bind_def split: sum.splits prod.splits)

lemma fst_seq: "fst (seq m n) = fst m @ (case snd m of Inl e \<Rightarrow> [] | Inr x \<Rightarrow> fst n)"
  by (simp add: seq_def fst_bind)

lemma snd_seq: "snd (seq m n) = (case snd m of Inl e \<Rightarrow> Inl e | Inr x \<Rightarrow> snd n)"
  by (simp add: seq_def snd_bind)

lemmas res_defs = ret_def raise_def emit_def lift_def lift_unit_def bind_def seq_def
  try_except_def py_exit_def logger_error_def py_print_def when_do_def

lemma configure_stage_ops:
  "(snd (configure_stage env core bk flags ex er args) = Inr ()
      \<and> backend_ops (fst (configure_stage env core bk flags ex er args)) = [BackendConfigure args])
   \<or> ((\<exists>e. snd (configure_stage env core bk flags ex er args) = Inl e)
      \<and> (backend_ops (fst (configure_stage env core bk flags ex er args)) = []
         \<or> backend_ops (fst (configure_stage env core bk flags ex er args)) = [BackendConfigure args]))"
  by (simp add: configure_stage_def configure_handlers_def res_defs
      split: option.splits pyexn.splits)

lemma build_stage_ops:
  "backend_ops (fst (build_stage env bk tt)) = [BackendBuild]"
  by (simp add: build_stage_def build_handlers_def res_defs
      split: option.splits pyexn.splits)

lemma run_stage_ops:
  "backend_ops (fst (run_stage env bk tt args)) = [BackendRun args]"
  by (simp add: run_stage_def run_handlers_def res_defs
      split: option.splits pyexn.splits)

lemma stages_ops:
  "prefix (backend_ops (fst (stages env core bk tt ex er dc db dr flags args)))
     (enabled_ops dc db dr args)"
proof -
  let ?b = "build_stage env bk tt"
  from configure_stage_ops [of env core bk flags ex er args]
  show ?thesis
    using build_stage_ops [of env bk tt] run_stage_ops [of env bk tt args]
    by (cases "snd ?b")
      (auto simp: stages_def when_do_def fst_seq snd_seq backend_ops_append enabled_ops_def
        ret_def split: sum.splits)
qed

lemma get_core_no_ops: "backend_ops (fst (priv_get_core env system)) = []"
  by (simp add: priv_get_core_def get_core_handlers_def res_defs
      split: sum.splits pyexn.splits)

lemma eda_api_no_ops: "backend_ops (fst (get_eda_api_step env core flags er system)) = []"
  by (simp add: get_eda_api_step_def eda_api_handlers_def res_defs
      split: sum.splits pyexn.splits)

lemma new_backend_no_ops: "backend_ops (fst (new_backend_step env tool api wr)) = []"
  by (simp add: new_backend_step_def backend_handlers_def res_defs
      split: sum.splits pyexn.splits)

lemma with_tool_ops:
  "prefix (backend_ops (fst (with_tool env core tool tt ex dc db dr flags system args)))
     (enabled_ops dc db dr args)"
  by (simp add: with_tool_def Let_def fst_bind backend_ops_append eda_api_no_ops
      new_backend_no_ops stages_ops split: sum.splits)

lemma run_backend_ops:
  "prefix (backend_ops (fst (run_backend env tt ex dc db dr flags system args)))
     (enabled_ops dc db dr args)"
  by (simp add: run_backend_def fst_bind backend_ops_append get_core_no_ops with_tool_ops
      fst_seq logger_error_def emit_def lift_def py_exit_def raise_def
      split: sum.splits option.splits)

lemma in_backend_ops:
  "BackendConfigure a \<in> set t \<longleftrightarrow> BackendConfigure a \<in> set (backend_ops t)"
  "BackendBuild \<in> set t \<longleftrightarrow> BackendBuild \<in> set (backend_ops t)"
  "BackendRun a \<in> set t \<longleftrightarrow> BackendRun a \<in> set (backend_ops t)"
  by (induction t rule: backend_ops.induct) auto

lemma enabled_subseq:
  "subseq (enabled_ops dc db dr args) [BackendConfigure args, BackendBuild, BackendRun args]"
  by (simp add: enabled_ops_def)

text \<open>
  C4.  In every call of \<^verbatim>\<open>run_backend\<close> the calls made on the backend are a prefix of
  the enabled ones among \<^verbatim>\<open>configure(backendargs)\<close>, \<^verbatim>\<open>build()\<close> and
  \<^verbatim>\<open>run(backendargs)\<close>, taken in this order: each is made at most once, in this order,
  \<^verbatim>\<open>configure\<close> only when \<^verbatim>\<open>do_configure\<close> holds, \<^verbatim>\<open>build\<close> only when \<^verbatim>\<open>do_build\<close>
  holds and \<^verbatim>\<open>run\<close> only when \<^verbatim>\<open>do_run\<close> holds.
\<close>

theorem run_backend_stage_order:
  "prefix (backend_ops (fst (run_backend env tool_type export do_configure do_build do_run
        flags system backendargs)))
     (enabled_ops do_configure do_build do_run backendargs)
   \<and> subseq (backend_ops (fst (run_backend env tool_type export do_configure do_build do_run
        flags system backendargs)))
       [BackendConfigure backendargs, BackendBuild, BackendRun backendargs]
   \<and> (\<forall>a. BackendConfigure a \<in> set (fst (run_backend env tool_type export do_configure
        do_build do_run flags system backendargs)) \<longrightarrow> do_configure \<and> a = backendargs)
   \<and> (BackendBuild \<in> set (fst (run_backend env tool_type export do_configure
        do_build do_run flags system backendargs)) \<longrightarrow> do_build)
   \<and> (\<forall>a. BackendRun a \<in> set (fst (run_backend env tool_type export do_configure
        do_build do_run flags system backendargs)) \<longrightarrow> do_run \<and> a = backendargs)"
proof -
  let ?t = "fst (run_backend env tool_type export do_configure do_build do_run
        flags system backendargs)"
  let ?e = "enabled_ops do_configure do_build do_run backendargs"
  have p: "prefix (backend_ops ?t) ?e"
    by (rule run_backend_ops)
  then have s: "set (backend_ops ?t) \<subseteq> set ?e"
    by (rule set_mono_prefix)
  from p have "subseq (backend_ops ?t) ?e"
    by (rule prefix_imp_subseq)
  then have q: "subseq (backend_ops ?t)
      [BackendConfigure backendargs, BackendBuild, BackendRun backendargs]"
    using enabled_subseq subseq_order.trans by blast
  have c: "\<forall>a. BackendConfigure a \<in> set ?t \<longrightarrow> do_configure \<and> a = backendargs"
  proof (intro allI impI)
    fix a
    assume "BackendConfigure a \<in> set ?t"
    then have "BackendConfigure a \<in> set (backend_ops ?t)"
      using in_backend_ops(1) by blast
    with s have "BackendConfigure a \<in> set ?e" by blast
    then show "do_configure \<and> a = backendargs"
      by (auto simp: enabled_ops_def split: if_splits)
  qed
  have b: "BackendBuild \<in> set ?t \<longrightarrow> do_build"
  proof
    assume "BackendBuild \<in> set ?t"
    then have "BackendBuild \<in> set (backend_ops ?t)"
      using in_backend_ops(2) by blast
    with s have "BackendBuild \<in> set ?e" by blast
    then show do_build
      by (auto simp: enabled_ops_def split: if_splits)
  qed
  have r: "\<forall>a. BackendRun a \<in> set ?t \<longrightarrow> do_run \<and> a = backendargs"
  proof (intro allI impI)
    fix a
    assume "BackendRun a \<in> set ?t"
    then have "BackendRun a \<in> set (backend_ops ?t)"
      using in_backend_ops(3) by blast
    with s have "BackendRun a \<in> set ?e" by blast
    then show "do_run \<and> a = backendargs"
      by (auto simp: enabled_ops_def split: if_splits)
  qed
  from p q c b r show ?thesis by blast
qed

lemma sample_run_trace:
  "fst (run_backend sample_collab ''simulator'' True True True True
          [(''tool'', None)] ''soc'' [''--vcd''])
   = [GetEdaApi [(''tool'', Some ''icarus'')] (Some ''build/soc/src''),
      NewBackend ''icarus'' ''build/soc/sim-icarus'',
      CmSetup [(''tool'', Some ''icarus'')] True (Some ''build/soc/src''),
      BackendConfigure [''--vcd''], Print [], BackendBuild, BackendRun [''--vcd'']]"
  by (simp add: run_backend_def with_tool_def stages_def priv_get_core_def get_eda_api_step_def
      new_backend_step_def configure_stage_def build_stage_def run_stage_def priv_import_def
      export_root_of_def work_root_of_def path_join_def join_step_def tool_type_short_def
      sample_collab_def res_defs Let_def)

theorem run_backend_stage_order_witness:
  "BackendConfigure [''--vcd''] \<in> set (fst (run_backend sample_collab ''simulator'' True True
        True True [(''tool'', None)] ''soc'' [''--vcd'']))
   \<and> BackendBuild \<in> set (fst (run_backend sample_collab ''simulator'' True True
        True True [(''tool'', None)] ''soc'' [''--vcd'']))
   \<and> BackendRun [''--vcd''] \<in> set (fst (run_backend sample_collab ''simulator'' True True
        True True [(''tool'', None)] ''soc'' [''--vcd'']))
   \<and> backend_ops (fst (run_backend sample_collab ''simulator'' True True
        True True [(''tool'', None)] ''soc'' [''--vcd'']))
      = [BackendConfigure [''--vcd''], BackendBuild, BackendRun [''--vcd'']]
   \<and> subseq (backend_ops (fst (run_backend sample_collab ''simulator'' True True
        True True [(''tool'', None)] ''soc'' [''--vcd''])))
       [BackendConfigure [''--vcd''], BackendBuild, BackendRun [''--vcd'']]"
  using run_backend_stage_order [of sample_collab "''simulator''" True True True True
      "[(''tool'', None)]" "''soc''" "[''--vcd'']"]
  by (simp add: sample_run_trace)

lemma run_backend_reaches:
  assumes "reaches_stages env tool_type export flags system core tool eda_api backend"
  shows "run_backend env tool_type export do_configure do_build do_run flags system backendargs
     = (before_stages env tool_type export flags core tool
          @ fst (stages env core backend tool_type export (export_root_of env core export)
                  do_configure do_build do_run (dict_set flags ''tool'' (Some tool)) backendargs),
        snd (stages env core backend tool_type export (export_root_of env core export)
                  do_configure do_build do_run (dict_set flags ''tool'' (Some tool)) backendargs))"
  using assms
  by (simp add: reaches_stages_def run_backend_def with_tool_def priv_get_core_def
      get_eda_api_step_def new_backend_step_def before_stages_def res_defs Let_def
      split: prod.splits)

lemma stages_configure_fails:
  assumes "cm_setup env core flags export er = None"
    and "bk_configure env backend backendargs = Some (RuntimeError s)"
  shows "stages env core backend tool_type export er True do_build do_run flags backendargs
     = ([CmSetup flags export er, BackendConfigure backendargs,
         LogError ''Failed to configure the system'', LogError s], Inl (SystemExit 1))"
  using assms
  by (simp add: stages_def configure_stage_def configure_handlers_def res_defs)

lemma configure_stage_ok:
  assumes "cm_setup env core flags export er = None"
    and "bk_configure env backend backendargs = None"
  shows "configure_stage env core backend flags export er backendargs
     = ([CmSetup flags export er, BackendConfigure backendargs, Print []], Inr ())"
  using assms
  by (simp add: configure_stage_def configure_handlers_def res_defs)

lemma stages_build_fails:
  assumes "do_configure \<longrightarrow> cm_setup env core flags export er = None
              \<and> bk_configure env backend backendargs = None"
    and "bk_build env backend = Some (RuntimeError s)"
  shows "stages env core backend tool_type export er do_configure True do_run flags backendargs
     = ((if do_configure
         then [CmSetup flags export er, BackendConfigure backendargs, Print []] else [])
        @ [BackendBuild, LogError (build_error tool_type @ '' : '' @ s)], Inl (SystemExit 1))"
  using assms
  by (cases do_configure)
    (simp_all add: stages_def configure_stage_ok build_stage_def build_handlers_def res_defs)

lemma stages_run_fails:
  assumes "do_configure \<longrightarrow> cm_setup env core flags export er = None
              \<and> bk_configure env backend backendargs = None"
    and "do_build \<longrightarrow> bk_build env backend = None"
    and "bk_run env backend backendargs = Some (RuntimeError s)"
  shows "stages env core backend tool_type export er do_configure do_build True flags backendargs
     = ((if do_configure
         then [CmSetup flags export er, BackendConfigure backendargs, Print []] else [])
        @ (if do_build then [BackendBuild] else [])
        @ [BackendRun backendargs, LogError (run_error tool_type @ '' : '' @ s), LogError s],
        Inl (SystemExit 1))"
  using assms
  by (cases do_configure; cases do_build)
    (simp_all add: stages_def configure_stage_ok build_stage_def build_handlers_def
      run_stage_def run_handlers_def res_defs)

lemma run_backend_eda_fails:
  assumes "cm_get_core env system = Inr core"
    and "core_get_tool env core flags = Inr (Some tool)" and "tool \<noteq> []"
    and "cm_get_eda_api env core (dict_set flags ''tool'' (Some tool))
           (export_root_of env core export) = Inl e"
    and "e = DependencyError v m \<or> e = SyntaxError m"
  shows "\<exists>msg. run_backend env tool_type export do_configure do_build do_run flags system
            backendargs
     = ([GetEdaApi (dict_set flags ''tool'' (Some tool)) (export_root_of env core export),
         LogError msg], Inl (SystemExit 1))"
  using assms
  by (auto simp add: run_backend_def with_tool_def priv_get_core_def
      get_eda_api_step_def eda_api_handlers_def res_defs Let_def)

text \<open>
  C5.  A failure of an enabled stage ends \<^verbatim>\<open>run_backend\<close> at once with an error record
  and exit status 1, and no later stage runs: a \<^verbatim>\<open>DependencyError\<close> or \<^verbatim>\<open>SyntaxError\<close>
  of \<^verbatim>\<open>get_eda_api\<close> ends it before the backend exists; a \<^verbatim>\<open>RuntimeError\<close> of
  \<^verbatim>\<open>backend.configure\<close> ends it before \<^verbatim>\<open>build\<close> and \<^verbatim>\<open>run\<close>; a \<^verbatim>\<open>RuntimeError\<close> of
  \<^verbatim>\<open>backend.build\<close> ends it before \<^verbatim>\<open>run\<close>; a \<^verbatim>\<open>RuntimeError\<close> of \<^verbatim>\<open>backend.run\<close>
  ends it.  In each case the events are given in full.
\<close>

theorem stage_failure_exits:
  "(cm_get_core env system = Inr core
      \<and> core_get_tool env core flags = Inr (Some tool) \<and> tool \<noteq> []
      \<and> cm_get_eda_api env core (dict_set flags ''tool'' (Some tool))
            (export_root_of env core export) = Inl e
      \<and> (e = DependencyError v m \<or> e = SyntaxError m) \<longrightarrow>
    (\<exists>msg. run_backend env tool_type export do_configure do_build do_run flags system
              backendargs
       = ([GetEdaApi (dict_set flags ''tool'' (Some tool)) (export_root_of env core export),
           LogError msg], Inl (SystemExit 1))))
   \<and> (reaches_stages env tool_type export flags system core tool eda_api backend
      \<and> do_configure
      \<and> cm_setup env core (dict_set flags ''tool'' (Some tool)) export
            (export_root_of env core export) = None
      \<and> bk_configure env backend backendargs = Some (RuntimeError s) \<longrightarrow>
    run_backend env tool_type export do_configure do_build do_run flags system backendargs
       = (before_stages env tool_type export flags core tool
          @ [CmSetup (dict_set flags ''tool'' (Some tool)) export
               (export_root_of env core export),
             BackendConfigure backendargs,
             LogError ''Failed to configure the system'', LogError s],
          Inl (SystemExit 1)))
   \<and> (reaches_stages env tool_type export flags system core tool eda_api backend
      \<and> (do_configure \<longrightarrow>
            cm_setup env core (dict_set flags ''tool'' (Some tool)) export
              (export_root_of env core export) = None
            \<and> bk_configure env backend backendargs = None)
      \<and> do_build
      \<and> bk_build env backend = Some (RuntimeError s) \<longrightarrow>
    run_backend env tool_type export do_configure do_build do_run flags system backendargs
       = (before_stages env tool_type export flags core tool
          @ (if do_configure then configured env export flags core tool backendargs else [])
          @ [BackendBuild, LogError (build_error tool_type @ '' : '' @ s)],
          Inl (SystemExit 1)))
   \<and> (reaches_stages env tool_type export flags system core tool eda_api backend
      \<and> (do_configure \<longrightarrow>
            cm_setup env core (dict_set flags ''tool'' (Some tool)) export
              (export_root_of env core export) = None
            \<and> bk_configure env backend backendargs = None)
      \<and> (do_build \<longrightarrow> bk_build env backend = None)
      \<and> do_run
      \<and> bk_run env backend backendargs = Some (RuntimeError s) \<longrightarrow>
    run_backend env tool_type export do_configure do_build do_run flags system backendargs
       = (before_stages env tool_type export flags core tool
          @ (if do_configure then configured env export flags core tool backendargs else [])
          @ (if do_build then [BackendBuild] else [])
          @ [BackendRun backendargs, LogError (run_error tool_type @ '' : '' @ s), LogError s],
          Inl (SystemExit 1)))"
proof (intro conjI impI)
  assume "cm_get_core env system = Inr core
      \<and> core_get_tool env core flags = Inr (Some tool) \<and> tool \<noteq> []
      \<and> cm_get_eda_api env core (dict_set flags ''tool'' (Some tool))
            (export_root_of env core export) = Inl e
      \<and> (e = DependencyError v m \<or> e = SyntaxError m)"
  then show "\<exists>msg. run_backend env tool_type export do_configure do_build do_run flags system
              backendargs
       = ([GetEdaApi (dict_set flags ''tool'' (Some tool)) (export_root_of env core export),
           LogError msg], Inl (SystemExit 1))"
    by (elim conjE) (rule run_backend_eda_fails [where e = e and v = v and m = m])
next
  assume a: "reaches_stages env tool_type export flags system core tool eda_api backend
      \<and> do_configure
      \<and> cm_setup env core (dict_set flags ''tool'' (Some tool)) export
            (export_root_of env core export) = None
      \<and> bk_configure env backend backendargs = Some (RuntimeError s)"
  then show "run_backend env tool_type export do_configure do_build do_run flags system
        backendargs
       = (before_stages env tool_type export flags core tool
          @ [CmSetup (dict_set flags ''tool'' (Some tool)) export
               (export_root_of env core export),
             BackendConfigure backendargs,
             LogError ''Failed to configure the system'', LogError s],
          Inl (SystemExit 1))"
    by (simp add: run_backend_reaches [of env tool_type export flags system core tool eda_api
          backend] stages_configure_fails)
next
  assume a: "reaches_stages env tool_type export flags system core tool eda_api backend
      \<and> (do_configure \<longrightarrow>
            cm_setup env core (dict_set flags ''tool'' (Some tool)) export
              (export_root_of env core export) = None
            \<and> bk_configure env backend backendargs = None)
      \<and> do_build
      \<and> bk_build env backend = Some (RuntimeError s)"
  then have "stages env core backend tool_type export (export_root_of env core export)
        do_configure True do_run (dict_set flags ''tool'' (Some tool)) backendargs
     = ((if do_configure
         then [CmSetup (dict_set flags ''tool'' (Some tool)) export
                 (export_root_of env core export), BackendConfigure backendargs, Print []]
         else [])
        @ [BackendBuild, LogError (build_error tool_type @ '' : '' @ s)], Inl (SystemExit 1))"
    by (intro stages_build_fails) simp_all
  with a show "run_backend env tool_type export do_configure do_build do_run flags system
        backendargs
       = (before_stages env tool_type export flags core tool
          @ (if do_configure then configured env export flags core tool backendargs else [])
          @ [BackendBuild, LogError (build_error tool_type @ '' : '' @ s)],
          Inl (SystemExit 1))"
    by (simp add: run_backend_reaches [of env tool_type export flags system core tool eda_api
          backend] configured_def)
next
  assume a: "reaches_stages env tool_type export flags system core tool eda_api backend
      \<and> (do_configure \<longrightarrow>
            cm_setup env core (dict_set flags ''tool'' (Some tool)) export
              (export_root_of env core export) = None
            \<and> bk_configure env backend backendargs = None)
      \<and> (do_build \<longrightarrow> bk_build env backend = None)
      \<and> do_run
      \<and> bk_run env backend backendargs = Some (RuntimeError s)"
  then have "stages env core backend tool_type export (export_root_of env core export)
        do_configure do_build True (dict_set flags ''tool'' (Some tool)) backendargs
     = ((if do_configure
         then [CmSetup (dict_set flags ''tool'' (Some tool)) export
                 (export_root_of env core export), BackendConfigure backendargs, Print []]
         else [])
        @ (if do_build then [BackendBuild] else [])
        @ [BackendRun backendargs, LogError (run_error tool_type @ '' : '' @ s), LogError s],
        Inl (SystemExit 1))"
    by (intro stages_run_fails) simp_all
  with a show "run_backend env tool_type export do_configure do_build do_run flags system
        backendargs
       = (before_stages env tool_type export flags core tool
          @ (if do_configure then configured env export flags core tool backendargs else [])
          @ (if do_build then [BackendBuild] else [])
          @ [BackendRun backendargs, LogError (run_error tool_type @ '' : '' @ s), LogError s],
          Inl (SystemExit 1))"
    by (simp add: run_backend_reaches [of env tool_type export flags system core tool eda_api
          backend] configured_def)
qed

lemma capitalize_samples:
  "capitalize ''icarus'' = ''Icarus''" "capitalize ''ghdl'' = ''Ghdl''"
  by (simp_all add: upper_char_def lower_char_def lower_letters_def upper_letters_def)

lemma sample_reaches:
  "reaches_stages sample_collab ''simulator'' True [(''tool'', None)] ''soc'' ''soc''
     ''icarus'' () ''Icarus''"
  "reaches_stages sample_collab ''simulator'' True [(''tool'', Some ''ghdl'')] ''soc'' ''soc''
     ''ghdl'' () ''Ghdl''"
  by (simp_all add: reaches_stages_def sample_collab_def priv_import_def upper_char_def
      lower_char_def lower_letters_def upper_letters_def)

theorem stage_failure_exits_witness:
  "(\<exists>msg. run_backend sample_collab ''simulator'' True True True True [(''tool'', None)]
             ''loop'' []
       = ([GetEdaApi (dict_set [(''tool'', None)] ''tool'' (Some ''icarus''))
             (export_root_of sample_collab ''loop'' True),
           LogError msg], Inl (SystemExit 1)))
   \<and> run_backend sample_collab ''simulator'' True True True True [(''tool'', None)]
        ''soc'' [''--fail-configure'']
       = (before_stages sample_collab ''simulator'' True [(''tool'', None)] ''soc'' ''icarus''
          @ [CmSetup (dict_set [(''tool'', None)] ''tool'' (Some ''icarus'')) True
               (export_root_of sample_collab ''soc'' True),
             BackendConfigure [''--fail-configure''],
             LogError ''Failed to configure the system'', LogError ''no project''],
          Inl (SystemExit 1))
   \<and> run_backend sample_collab ''simulator'' True True True True [(''tool'', Some ''ghdl'')]
        ''soc'' []
       = (before_stages sample_collab ''simulator'' True [(''tool'', Some ''ghdl'')] ''soc''
            ''ghdl''
          @ configured sample_collab True [(''tool'', Some ''ghdl'')] ''soc'' ''ghdl'' []
          @ [BackendBuild,
             LogError (build_error ''simulator'' @ '' : '' @ ''ghdl not installed'')],
          Inl (SystemExit 1))
   \<and> run_backend sample_collab ''simulator'' True True True True [(''tool'', None)]
        ''soc'' [''--fail-run'']
       = (before_stages sample_collab ''simulator'' True [(''tool'', None)] ''soc'' ''icarus''
          @ configured sample_collab True [(''tool'', None)] ''soc'' ''icarus'' [''--fail-run'']
          @ [BackendBuild]
          @ [BackendRun [''--fail-run''],
             LogError (run_error ''simulator'' @ '' : '' @ ''exit 2''), LogError ''exit 2''],
          Inl (SystemExit 1))"
proof (intro conjI)
  show "\<exists>msg. run_backend sample_collab ''simulator'' True True True True [(''tool'', None)]
             ''loop'' []
       = ([GetEdaApi (dict_set [(''tool'', None)] ''tool'' (Some ''icarus''))
             (export_root_of sample_collab ''loop'' True),
           LogError msg], Inl (SystemExit 1))"
    using stage_failure_exits [where env = sample_collab and system = "''loop''"
        and core = "''loop''" and flags = "[(''tool'', None)]" and tool = "''icarus''"
        and export = True and e = "DependencyError ''loop'' ''cycle''" and v = "''loop''"
        and m = "''cycle''" and tool_type = "''simulator''" and do_configure = True
        and do_build = True and do_run = True and backendargs = "[]",
        THEN conjunct1]
    by (simp add: sample_collab_def)
next
  show "run_backend sample_collab ''simulator'' True True True True [(''tool'', None)]
        ''soc'' [''--fail-configure'']
       = (before_stages sample_collab ''simulator'' True [(''tool'', None)] ''soc'' ''icarus''
          @ [CmSetup (dict_set [(''tool'', None)] ''tool'' (Some ''icarus'')) True
               (export_root_of sample_collab ''soc'' True),
             BackendConfigure [''--fail-configure''],
             LogError ''Failed to configure the system'', LogError ''no project''],
          Inl (SystemExit 1))"
    using stage_failure_exits [where env = sample_collab and system = "''soc''"
        and core = "''soc''" and flags = "[(''tool'', None)]" and tool = "''icarus''"
        and export = True and tool_type = "''simulator''" and do_configure = True
        and do_build = True and do_run = True and backendargs = "[''--fail-configure'']"
        and eda_api = "()" and backend = "''Icarus''" and s = "''no project''",
        THEN conjunct2, THEN conjunct1]
      sample_reaches(1)
    by (simp add: sample_collab_def)
next
  show "run_backend sample_collab ''simulator'' True True True True [(''tool'', Some ''ghdl'')]
        ''soc'' []
       = (before_stages sample_collab ''simulator'' True [(''tool'', Some ''ghdl'')] ''soc''
            ''ghdl''
          @ configured sample_collab True [(''tool'', Some ''ghdl'')] ''soc'' ''ghdl'' []
          @ [BackendBuild,
             LogError (build_error ''simulator'' @ '' : '' @ ''ghdl not installed'')],
          Inl (SystemExit 1))"
    using stage_failure_exits [where env = sample_collab and system = "''soc''"
        and core = "''soc''" and flags = "[(''tool'', Some ''ghdl'')]" and tool = "''ghdl''"
        and export = True and tool_type = "''simulator''" and do_configure = True
        and do_build = True and do_run = True and backendargs = "[]"
        and eda_api = "()" and backend = "''Ghdl''" and s = "''ghdl not installed''",
        THEN conjunct2, THEN conjunct2, THEN conjunct1]
      sample_reaches(2)
    by (simp add: sample_collab_def)
next
  show "run_backend sample_collab ''simulator'' True True True True [(''tool'', None)]
        ''soc'' [''--fail-run'']
       = (before_stages sample_collab ''simulator'' True [(''tool'', None)] ''soc'' ''icarus''
          @ configured sample_collab True [(''tool'', None)] ''soc'' ''icarus'' [''--fail-run'']
          @ [BackendBuild]
          @ [BackendRun [''--fail-run''],
             LogError (run_error ''simulator'' @ '' : '' @ ''exit 2''), LogError ''exit 2''],
          Inl (SystemExit 1))"
    using stage_failure_exits [where env = sample_collab and system = "''soc''"
        and core = "''soc''" and flags = "[(''tool'', None)]" and tool = "''icarus''"
        and export = True and tool_type = "''simulator''" and do_configure = True
        and do_build = True and do_run = True and backendargs = "[''--fail-run'']"
        and eda_api = "()" and backend = "''Icarus''" and s = "''exit 2''",
        THEN conjunct2, THEN conjunct2, THEN conjunct2]
      sample_reaches(1)
    by (simp add: sample_collab_def)
qed

lemma eda_step_head:
  "\<exists>tr r. get_eda_api_step env core f er system = (GetEdaApi f er # tr, r)"
  by (cases "cm_get_eda_api env core f er")
    (auto simp add: get_eda_api_step_def eda_api_handlers_def res_defs
      split: pyexn.splits option.splits)

lemma with_tool_head:
  "\<exists>rest r. with_tool env core t tool_type export do_configure do_build do_run flags system
       backendargs
     = (GetEdaApi (dict_set flags ''tool'' (Some t)) (export_root_of env core export) # rest, r)"
proof -
  obtain tr r where g: "get_eda_api_step env core (dict_set flags ''tool'' (Some t))
        (export_root_of env core export) system
      = (GetEdaApi (dict_set flags ''tool'' (Some t)) (export_root_of env core export) # tr, r)"
    using eda_step_head [of env core "dict_set flags ''tool'' (Some t)"
        "export_root_of env core export" system]
    by (elim exE)
  then show ?thesis
    by (auto simp add: with_tool_def Let_def bind_def split: sum.splits prod.splits)
qed

lemma run_backend_with_tool:
  assumes "cm_get_core env system = Inr core \<and> core_get_tool env core flags = Inr (Some t)
      \<and> t \<noteq> []"
  shows "run_backend env tool_type export do_configure do_build do_run flags system backendargs
     = with_tool env core t tool_type export do_configure do_build do_run flags system
         backendargs"
  using assms
  by (simp add: run_backend_def priv_get_core_def try_except_def lift_def bind_def
      split: prod.splits)

text \<open>
  C6.  When the core is found and \<^verbatim>\<open>core.get_tool(flags)\<close> answers no tool (\<^verbatim>\<open>None\<close>
  or the empty string), \<^verbatim>\<open>run_backend\<close> logs the tool error of its flow, which names
  the requested system, and exits with status 1; this record is its only event, so no
  backend is constructed and no stage runs.  When a tool is answered, the first event
  is the request for the EDA API, made with the flags in which \<^verbatim>\<open>tool\<close> is that tool.
\<close>

theorem no_tool_exits:
  "(cm_get_core env system = Inr core \<and> core_get_tool env core flags = Inr tool
      \<and> (tool = None \<or> tool = Some []) \<longrightarrow>
    run_backend env tool_type export do_configure do_build do_run flags system backendargs
      = ([LogError (tool_error tool_type system)], Inl (SystemExit 1)))
   \<and> tool_error ''simulator'' system
      = ''No simulator was supplied on command line or found in '' @ [CHR 0x27] @ system
        @ [CHR 0x27] @ '' core description''
   \<and> (tool_type \<noteq> ''simulator'' \<longrightarrow>
        tool_error tool_type system
          = ''Unable to find synthesis info for '' @ [CHR 0x27] @ system @ [CHR 0x27])
   \<and> sublist system (tool_error tool_type system)
   \<and> (cm_get_core env system = Inr core \<and> core_get_tool env core flags = Inr (Some t)
      \<and> t \<noteq> [] \<longrightarrow>
    (\<exists>rest r. run_backend env tool_type export do_configure do_build do_run flags system
                backendargs
       = (GetEdaApi (dict_set flags ''tool'' (Some t)) (export_root_of env core export) # rest,
          r))
     \<and> map_of (dict_set flags ''tool'' (Some t)) ''tool'' = Some (Some t))"
proof (intro conjI impI)
  assume "cm_get_core env system = Inr core \<and> core_get_tool env core flags = Inr tool
      \<and> (tool = None \<or> tool = Some [])"
  then show "run_backend env tool_type export do_configure do_build do_run flags system
        backendargs
      = ([LogError (tool_error tool_type system)], Inl (SystemExit 1))"
    by (auto simp add: run_backend_def priv_get_core_def res_defs)
next
  show "tool_error ''simulator'' system
      = ''No simulator was supplied on command line or found in '' @ [CHR 0x27] @ system
        @ [CHR 0x27] @ '' core description''"
    by (simp add: tool_error_def)
next
  assume "tool_type \<noteq> ''simulator''"
  then show "tool_error tool_type system
          = ''Unable to find synthesis info for '' @ [CHR 0x27] @ system @ [CHR 0x27]"
    by (simp add: tool_error_def)
next
  have "sublist system (''No simulator was supplied on command line or found in ''
          @ [CHR 0x27] @ system @ [CHR 0x27] @ '' core description'')"
    using sublist_mid [of system "''No simulator was supplied on command line or found in ''
          @ [CHR 0x27]" "[CHR 0x27] @ '' core description''"]
    by simp
  moreover have "sublist system (''Unable to find synthesis info for '' @ [CHR 0x27] @ system
          @ [CHR 0x27])"
    using sublist_mid [of system "''Unable to find synthesis info for '' @ [CHR 0x27]"
          "[CHR 0x27]"]
    by simp
  ultimately show "sublist system (tool_error tool_type system)"
    by (simp add: tool_error_def)
next
  assume a: "cm_get_core env system = Inr core \<and> core_get_tool env core flags = Inr (Some t)
      \<and> t \<noteq> []"
  then have "run_backend env tool_type export do_configure do_build do_run flags
        system backendargs
      = with_tool env core t tool_type export do_configure do_build do_run flags system
          backendargs"
    by (rule run_backend_with_tool)
  then show "\<exists>rest r. run_backend env tool_type export do_configure do_build do_run flags
        system backendargs
       = (GetEdaApi (dict_set flags ''tool'' (Some t)) (export_root_of env core export) # rest,
          r)"
    using with_tool_head [of env core t tool_type export do_configure do_build do_run flags
        system backendargs]
    by simp
next
  show "map_of (dict_set flags ''tool'' (Some t)) ''tool'' = Some (Some t)"
    by (induction flags) auto
qed

theorem no_tool_exits_witness:
  "run_backend sample_collab ''build'' True True True False
       [(''flow'', Some ''synth''), (''tool'', None)] ''bare'' []
     = ([LogError (tool_error ''build'' ''bare'')], Inl (SystemExit 1))
   \<and> tool_error ''build'' ''bare''
     = ''Unable to find synthesis info for '' @ [CHR 0x27] @ ''bare'' @ [CHR 0x27]
   \<and> (\<exists>rest r. run_backend sample_collab ''build'' True True True False
            [(''flow'', Some ''synth''), (''tool'', None)] ''soc'' []
         = (GetEdaApi [(''flow'', Some ''synth''), (''tool'', Some ''icarus'')]
              (export_root_of sample_collab ''soc'' True) # rest, r))"
proof (intro conjI)
  show "run_backend sample_collab ''build'' True True True False
       [(''flow'', Some ''synth''), (''tool'', None)] ''bare'' []
     = ([LogError (tool_error ''build'' ''bare'')], Inl (SystemExit 1))"
    using no_tool_exits [where env = sample_collab and system = "''bare''" and core = "''bare''"
        and flags = "[(''flow'', Some ''synth''), (''tool'', None)]" and tool = None
        and tool_type = "''build''", THEN conjunct1]
    by (simp add: sample_collab_def)
next
  show "tool_error ''build'' ''bare''
     = ''Unable to find synthesis info for '' @ [CHR 0x27] @ ''bare'' @ [CHR 0x27]"
    using no_tool_exits [where tool_type = "''build''" and system = "''bare''",
        THEN conjunct2, THEN conjunct2, THEN conjunct1]
    by simp
next
  show "\<exists>rest r. run_backend sample_collab ''build'' True True True False
            [(''flow'', Some ''synth''), (''tool'', None)] ''soc'' []
         = (GetEdaApi [(''flow'', Some ''synth''), (''tool'', Some ''icarus'')]
              (export_root_of sample_collab ''soc'' True) # rest, r)"
    using no_tool_exits [where env = sample_collab and system = "''soc''" and core = "''soc''"
        and flags = "[(''flow'', Some ''synth''), (''tool'', None)]" and t = "''icarus''"
        and tool_type = "''build''" and export = True and do_configure = True
        and do_build = True and do_run = False and backendargs = "[]",
        THEN conjunct2, THEN conjunct2, THEN conjunct2, THEN conjunct2]
    by (simp add: sample_collab_def)
qed


































inductive_cases visitE: "visit reg flow flags stack d cl r"
inductive_cases walk_nilE: "walk reg flow flags stack [] cl r"
inductive_cases walk_consE: "walk reg flow flags stack (c # cs) cl r"
inductive_cases resolvesE: "resolves reg root flow flags r"

lemma visit_walk_deterministic:
  "visit reg flow flags stack d cl r \<Longrightarrow> visit reg flow flags stack d cl r' \<Longrightarrow> r' = r"
  "walk reg flow flags stack cs cl r \<Longrightarrow> walk reg flow flags stack cs cl r' \<Longrightarrow> r' = r"
proof (induction arbitrary: r' and r' rule: visit_walk.inducts)
  case (visit_leaf d flow reg flags stack cl)
  from visit_leaf.prems visit_leaf.hyps show ?case
    by (elim visitE) simp_all
next
  case (visit_no_flow d flow reg flags stack cl)
  from visit_no_flow.prems visit_no_flow.hyps show ?case
    by (elim visitE) simp_all
next
  case (visit_failed d flow deps reg flags stack cl e)
  from visit_failed.prems visit_failed.hyps show ?case
    by (elim visitE) (auto dest: visit_failed.IH)
next
  case (visit_done d flow deps reg flags stack cl cl')
  from visit_done.prems visit_done.hyps show ?case
    by (elim visitE) (auto dest: visit_done.IH)
next
  case (walk_end reg flow flags stack cl)
  from walk_end.prems show ?case
    by (rule walk_nilE)
next
  case (walk_inactive flags c reg flow stack cs cl r)
  from walk_inactive.prems walk_inactive.hyps show ?case
    by (elim walk_consE) (auto dest: walk_inactive.IH)
next
  case (walk_missing flags c reg flow stack cs cl)
  from walk_missing.prems walk_missing.hyps show ?case
    by (elim walk_consE) simp_all
next
  case (walk_unmet flags c reg d stack flow cs cl)
  from walk_unmet.prems walk_unmet.hyps show ?case
    by (elim walk_consE) simp_all
next
  case (walk_cycle flags c reg d stack flow cs cl)
  from walk_cycle.prems walk_cycle.hyps show ?case
    by (elim walk_consE) simp_all
next
  case (walk_seen flags c reg d stack cl flow cs r)
  from walk_seen.prems walk_seen.hyps show ?case
    by (elim walk_consE) (auto dest: walk_seen.IH)
next
  case (walk_conflict flags c reg d stack cl k flow cs)
  from walk_conflict.prems walk_conflict.hyps show ?case
    by (elim walk_consE) simp_all
next
  case (walk_failed flags c reg d stack cl flow e cs)
  from walk_failed.prems walk_failed.hyps show ?case
    by (elim walk_consE) (auto dest: walk_failed.IH)
next
  case (walk_next flags c reg d stack cl flow cl' cs r)
  from walk_next.prems walk_next.hyps show ?case
    by (elim walk_consE) (auto dest: walk_next.IH)
qed

text \<open>
  C10.  Against one registry and with the same root identity, flow and flags, any two
  runs of the resolution of the specification have the same outcome: the same failure,
  or closures with the same cores in the same order and the same merged parameters.
\<close>

theorem resolve_deterministic:
  assumes "resolves reg root flow flags r1" and "resolves reg root flow flags r2"
  shows "r1 = r2
     \<and> (\<forall>c1 c2. r1 = Inr c1 \<and> r2 = Inr c2 \<longrightarrow>
           cl_cores c1 = cl_cores c2 \<and> cl_parameters c1 = cl_parameters c2)"
proof -
  from assms(1) have "r2 = r1"
  proof (cases rule: resolves.cases)
    case resolve_not_found
    with assms(2) show ?thesis
      by (elim resolvesE) simp_all
  next
    case (resolve_failed d e)
    with assms(2) show ?thesis
      by (elim resolvesE) (auto dest: visit_walk_deterministic(1))
  next
    case (resolve_conflict d cl e)
    with assms(2) show ?thesis
      by (elim resolvesE) (auto dest: visit_walk_deterministic(1))
  next
    case (resolve_done d cl ps)
    with assms(2) show ?thesis
      by (elim resolvesE) (auto dest: visit_walk_deterministic(1))
  qed
  then show ?thesis by auto
qed

lemma soc_lookup:
  "lookup soc_registry (root_query (d_identity soc_core)) = Some soc_core"
  "lookup soc_registry
     \<lparr>c_vendor = None, c_library = None, c_name = ''uart'', c_version = Some (Ge, [1]),
      c_flag = None\<rparr> = Some uart_core"
  by (simp_all add: lookup_def soc_registry_def root_query_def soc_core_def uart_core_def
      satisfies_def component_matches_def version_ok_def)

lemma soc_resolves:
  "resolves soc_registry (d_identity soc_core) ''sim'' [] (Inr soc_closure)"
proof -
  let ?dep = "\<lparr>c_vendor = None, c_library = None, c_name = ''uart'',
      c_version = Some (Ge, [1]), c_flag = None\<rparr>"
  have u: "visit soc_registry ''sim'' [] [d_identity soc_core] uart_core [] (Inr ([] @ [uart_core]))"
    by (rule visit_done [where deps = "[]"]) (simp_all add: uart_core_def walk_end)
  have a: "active [] ?dep"
    by (simp add: active_def)
  have s: "d_identity uart_core \<notin> set [d_identity soc_core]"
    by (simp add: soc_core_def uart_core_def)
  have n: "d_identity uart_core \<notin> set (map d_identity [])"
    by simp
  have c: "conflicting (map d_identity [] @ [d_identity soc_core]) (d_identity uart_core) = None"
    by (simp add: conflicting_def soc_core_def uart_core_def)
  have "walk soc_registry ''sim'' [] [d_identity soc_core] [?dep] [] (Inr ([] @ [uart_core]))"
    by (rule walk_next [OF a soc_lookup(2) s n c u walk_end])
  then have w: "walk soc_registry ''sim'' [] ([] @ [d_identity soc_core]) [?dep] []
      (Inr [uart_core])"
    by simp
  have t: "map_of (d_targets soc_core) ''sim'' = Some [?dep]"
    by (simp add: soc_core_def)
  have v: "visit soc_registry ''sim'' [] [] soc_core [] (Inr ([uart_core] @ [soc_core]))"
    by (rule visit_done [OF t w])
  have m: "merge_parameters [] (concat (map d_parameters [uart_core, soc_core]))
      = Inr (cl_parameters soc_closure)"
    by (simp add: soc_core_def uart_core_def soc_closure_def)
  have "resolves soc_registry (d_identity soc_core) ''sim'' []
      (Inr \<lparr>cl_cores = [uart_core, soc_core], cl_parameters = cl_parameters soc_closure\<rparr>)"
    using v m by (intro resolve_done [where d = soc_core]) (simp_all add: soc_lookup)
  then show ?thesis by (simp add: soc_closure_def)
qed

theorem resolve_deterministic_witness:
  "resolves soc_registry (d_identity soc_core) ''sim'' [] (Inr soc_closure)
   \<and> map (id_name \<circ> d_identity) (cl_cores soc_closure) = [''uart'', ''soc'']
   \<and> \<not> resolves soc_registry (d_identity soc_core) ''sim'' []
        (Inl (E_CoreNotFound (root_query (d_identity soc_core))))
   \<and> \<not> resolves soc_registry (d_identity soc_core) ''sim'' []
        (Inr \<lparr>cl_cores = [soc_core, uart_core], cl_parameters = cl_parameters soc_closure\<rparr>)"
proof (intro conjI)
  show "resolves soc_registry (d_identity soc_core) ''sim'' [] (Inr soc_closure)"
    by (rule soc_resolves)
next
  show "map (id_name \<circ> d_identity) (cl_cores soc_closure) = [''uart'', ''soc'']"
    by (simp add: soc_closure_def soc_core_def uart_core_def)
next
  show "\<not> resolves soc_registry (d_identity soc_core) ''sim'' []
        (Inl (E_CoreNotFound (root_query (d_identity soc_core))))"
  proof
    assume "resolves soc_registry (d_identity soc_core) ''sim'' []
        (Inl (E_CoreNotFound (root_query (d_identity soc_core))))"
    from resolve_deterministic [OF soc_resolves this] show False by simp
  qed
next
  show "\<not> resolves soc_registry (d_identity soc_core) ''sim'' []
        (Inr \<lparr>cl_cores = [soc_core, uart_core], cl_parameters = cl_parameters soc_closure\<rparr>)"
  proof
    assume "resolves soc_registry (d_identity soc_core) ''sim'' []
        (Inr \<lparr>cl_cores = [soc_core, uart_core], cl_parameters = cl_parameters soc_closure\<rparr>)"
    from resolve_deterministic [OF soc_resolves this] show False
      by (simp add: soc_closure_def soc_core_def uart_core_def)
  qed
qed

lemma ping_lookup:
  "lookup ping_registry (root_query (d_identity ping_core)) = Some ping_core"
  "lookup ping_registry (needs ''pong'') = Some pong_core"
  "lookup ping_registry (needs ''ping'') = Some ping_core"
  by (simp_all add: lookup_def ping_registry_def root_query_def ping_core_def pong_core_def
      needs_def satisfies_def component_matches_def)

text \<open>
  The mutual dependency of section 8 of the specification: resolution fails with the
  cycle, which names both cores.
\<close>

lemma mutual_dependency_is_cyclic:
  "resolves ping_registry (d_identity ping_core) ''sim'' []
     (Inl (E_CyclicDependency [d_identity ping_core, d_identity pong_core,
        d_identity ping_core]))"
proof -
  have a: "active [] (needs n)" for n
    by (simp add: active_def needs_def)
  have i: "d_identity ping_core \<in> set [d_identity ping_core, d_identity pong_core]"
    by simp
  have "walk ping_registry ''sim'' [] [d_identity ping_core, d_identity pong_core]
      [needs ''ping''] []
      (Inl (E_CyclicDependency ([d_identity ping_core, d_identity pong_core]
         @ [d_identity ping_core])))"
    by (rule walk_cycle [OF a ping_lookup(3) i])
  then have w2: "walk ping_registry ''sim'' [] ([d_identity ping_core] @ [d_identity pong_core])
      [needs ''ping''] []
      (Inl (E_CyclicDependency [d_identity ping_core, d_identity pong_core,
         d_identity ping_core]))"
    by simp
  have t2: "map_of (d_targets pong_core) ''sim'' = Some [needs ''ping'']"
    by (simp add: pong_core_def)
  have v2: "visit ping_registry ''sim'' [] [d_identity ping_core] pong_core []
      (Inl (E_CyclicDependency [d_identity ping_core, d_identity pong_core,
         d_identity ping_core]))"
    by (rule visit_failed [OF t2 w2])
  have s: "d_identity pong_core \<notin> set [d_identity ping_core]"
    by (simp add: ping_core_def pong_core_def)
  have n: "d_identity pong_core \<notin> set (map d_identity [])"
    by simp
  have c: "conflicting (map d_identity [] @ [d_identity ping_core]) (d_identity pong_core) = None"
    by (simp add: conflicting_def ping_core_def pong_core_def)
  have "walk ping_registry ''sim'' [] [d_identity ping_core] [needs ''pong''] []
      (Inl (E_CyclicDependency [d_identity ping_core, d_identity pong_core,
         d_identity ping_core]))"
    by (rule walk_failed [OF a ping_lookup(2) s n c v2])
  then have w1: "walk ping_registry ''sim'' [] ([] @ [d_identity ping_core]) [needs ''pong''] []
      (Inl (E_CyclicDependency [d_identity ping_core, d_identity pong_core,
         d_identity ping_core]))"
    by simp
  have t1: "map_of (d_targets ping_core) ''sim'' = Some [needs ''pong'']"
    by (simp add: ping_core_def)
  have v1: "visit ping_registry ''sim'' [] [] ping_core []
      (Inl (E_CyclicDependency [d_identity ping_core, d_identity pong_core,
         d_identity ping_core]))"
    by (rule visit_failed [OF t1 w1])
  show ?thesis
    by (rule resolve_failed [OF ping_lookup(1) v1])
qed

lemma strict_lookup:
  "lookup strict_registry (root_query (d_identity strict_core)) = Some strict_core"
  "lookup strict_registry uart_from_2 = None"
  "lookup strict_registry (any_version uart_from_2) = Some uart_core"
  by (simp_all add: lookup_def strict_registry_def root_query_def strict_core_def
      uart_core_def uart_from_2_def any_version_def satisfies_def component_matches_def
      version_ok_def)

text \<open>
  The unmet version requirement of section 8 of the specification: the registry holds
  \<open>uart\<close> only in version 1.0, and resolution fails with a version conflict.
\<close>

lemma unmet_version_is_conflict:
  "resolves strict_registry (d_identity strict_core) ''sim'' []
     (Inl (E_VersionConflict ''uart'' uart_from_2 (d_identity uart_core)))"
proof -
  have a: "active [] uart_from_2"
    by (simp add: active_def uart_from_2_def)
  have "walk strict_registry ''sim'' [] ([] @ [d_identity strict_core]) [uart_from_2] []
      (Inl (E_VersionConflict (c_name uart_from_2) uart_from_2 (d_identity uart_core)))"
    by (rule walk_unmet [OF a strict_lookup(2) strict_lookup(3)])
  then have w: "walk strict_registry ''sim'' [] ([] @ [d_identity strict_core]) [uart_from_2] []
      (Inl (E_VersionConflict ''uart'' uart_from_2 (d_identity uart_core)))"
    by (simp add: uart_from_2_def)
  have t: "map_of (d_targets strict_core) ''sim'' = Some [uart_from_2]"
    by (simp add: strict_core_def)
  show ?thesis
    by (rule resolve_failed [OF strict_lookup(1) visit_failed [OF t w]])
qed

end
